theory Spec2Isabelle
  imports Main "HOL-Library.Word"
begin

unbundle bit_operations_syntax

section \<open>Shared types (packages/shared/src/types.ts)\<close>

datatype BuildStatus =
  Pending | Downloading | Installing | Building | Uploading | Success | Failed

datatype Platform = Ios | Android | All

text \<open>
  \<open>ExpoClientConfig\<close>: the declared fields, and \<open>owner\<close>, which the code reads through
  the index signature. At run time every field of a parsed JSON object may be missing,
  and the code guards for it (\<open>expoConfig?.slug ?? 'app'\<close>), so each field is optional.
\<close>

record ExpoClientConfig =
  ec_name :: "string option"
  ec_slug :: "string option"
  ec_owner :: "string option"
  ec_version :: "string option"
  ec_sdkVersion :: "string option"
  ec_platforms :: "string list option"

record AssetMetadata =
  am_key :: string
  am_hash :: string
  am_contentType :: string
  am_fileExtension :: "string option"
  am_path :: string

text \<open>
  \<open>ExpoAsset\<close> and \<open>ExpoManifest\<close>. The API receives a manifest in the body of a webhook
  delivery and stores it as parsed, without validation, so at run time each of its fields
  may be missing as well; the functions that build a manifest set all of them. A field
  that is present has the declared type.
\<close>

record ExpoAsset =
  a_key :: "string option"
  a_hash :: "string option"
  a_contentType :: "string option"
  a_fileExtension :: "string option"
  a_url :: "string option"

record ManifestExtra =
  x_scopeKey :: "string option"
  x_expoClient :: "ExpoClientConfig option"

record ExpoManifest =
  m_id :: "string option"
  m_createdAt :: "string option"
  m_runtimeVersion :: "string option"
  m_launchAsset :: "ExpoAsset option"
  m_assets :: "ExpoAsset list option"
  m_metadata :: "(string \<times> string) list option"
  m_extra :: "ManifestExtra option"

record Build =
  b_id :: string
  b_projectSlug :: string
  b_status :: BuildStatus
  b_platform :: Platform
  b_runtimeVersion :: string
  b_createdAt :: string
  b_updatedAt :: string
  b_completedAt :: "string option"
  b_error :: "string option"
  b_expoConfig :: "ExpoClientConfig option"
  b_manifest :: "ExpoManifest option"
  b_assets :: "AssetMetadata list option"

record UploadRequest =
  ur_projectSlug :: "string option"
  ur_platform :: "Platform option"
  ur_runtimeVersion :: "string option"
  ur_expoConfig :: "ExpoClientConfig option"

text \<open>
  \<open>WebhookPayload\<close>. The body is parsed JSON cast to the type without validation, so
  \<open>status\<close> ranges over every build status here and \<open>buildId\<close> may be missing.
\<close>

record WebhookPayload =
  p_buildId :: "string option"
  p_status :: BuildStatus
  p_error :: "string option"
  p_manifest :: "ExpoManifest option"
  p_assets :: "AssetMetadata list option"

text \<open>JavaScript truthiness of an optional string: defined and not empty.\<close>

definition truthy :: "string option \<Rightarrow> bool" where
  "truthy s = (case s of None \<Rightarrow> False | Some v \<Rightarrow> v \<noteq> [])"

section \<open>Constants (packages/shared/src/constants.ts)\<close>

definition MAX_TARBALL_SIZE_BYTES :: nat where
  "MAX_TARBALL_SIZE_BYTES = 100 * 1024 * 1024"

definition DEFAULT_RUNTIME_VERSION :: string where
  "DEFAULT_RUNTIME_VERSION = ''exposdk:52.0.0''"

definition MIME_JAVASCRIPT :: string where
  "MIME_JAVASCRIPT = ''application/javascript''"

definition EXPO_PROTOCOL_VERSION :: string where
  "EXPO_PROTOCOL_VERSION = ''1''"

definition EXPO_SFV_VERSION :: string where
  "EXPO_SFV_VERSION = ''0''"

section \<open>KV service (LocalKVService)\<close>

text \<open>
  The contents of the KV file. \<open>builds\<close> holds the own properties of \<open>data.builds\<close>: the
  records, each stored under its id. Reading and writing the file do not fail here.
\<close>

record LocalKVData =
  builds :: "string \<rightharpoonup> Build"
  apiKeys :: "string list"
  buildLock :: bool

text \<open>
  \<open>data.builds\<close> is a plain object, and \<open>getBuild\<close> reads \<open>data.builds[buildId]\<close>. Where
  no record is stored under the name, this property lookup goes on to
  \<open>Object.prototype\<close>: for the name of one of its methods it finds that function object,
  and for \<open>__proto__\<close> the prototype itself. Both are truthy, so they pass \<open>?? null\<close> and
  the \<open>!build\<close> checks of the handlers.
\<close>

definition objectPrototypeMethods :: "string list" where
  "objectPrototypeMethods =
     [''constructor'', ''__defineGetter__'', ''__defineSetter__'', ''hasOwnProperty'',
      ''__lookupGetter__'', ''__lookupSetter__'', ''isPrototypeOf'',
      ''propertyIsEnumerable'', ''toString'', ''valueOf'', ''toLocaleString'']"

datatype property = Stored Build | Method string | ObjectPrototype

definition getBuild :: "string \<Rightarrow> LocalKVData \<Rightarrow> property option" where
  "getBuild buildId d =
     (case builds d buildId of
        Some build \<Rightarrow> Some (Stored build)
      | None \<Rightarrow>
          if buildId = ''__proto__'' then Some ObjectPrototype
          else if buildId \<in> set objectPrototypeMethods then Some (Method buildId)
          else None)"

text \<open>
  \<open>setBuild\<close> writes the own property \<open>build.id\<close>. The records it is called with are
  made by the upload handler, which gives them ids that start with \<open>bld_\<close>, so the name
  is that of an ordinary property.
\<close>

definition setBuild :: "Build \<Rightarrow> LocalKVData \<Rightarrow> LocalKVData" where
  "setBuild build d = d\<lparr>builds := (builds d)(b_id build \<mapsto> build)\<rparr>"

definition acquireBuildLock :: "LocalKVData \<Rightarrow> bool \<times> LocalKVData" where
  "acquireBuildLock d =
     (if buildLock d then (False, d) else (True, d\<lparr>buildLock := True\<rparr>))"

definition releaseBuildLock :: "LocalKVData \<Rightarrow> LocalKVData" where
  "releaseBuildLock d = d\<lparr>buildLock := False\<rparr>"

definition isBuildLocked :: "LocalKVData \<Rightarrow> bool" where
  "isBuildLocked d = buildLock d"

section \<open>Webhook route: POST /v1/webhook/build-complete\<close>

datatype webhook_response = WebhookError nat string | WebhookOk

text \<open>
  The handler reads the clock twice (\<open>updatedAt\<close>, then \<open>completedAt\<close>); the two
  readings are the arguments \<open>now1\<close> and \<open>now2\<close>. A body that is not JSON is \<open>None\<close>;
  a body that is JSON is taken to be an object.
\<close>

definition webhook_update :: "string \<Rightarrow> string \<Rightarrow> WebhookPayload \<Rightarrow> Build \<Rightarrow> Build" where
  "webhook_update now1 now2 payload build =
     (let build = build\<lparr>b_status := p_status payload, b_updatedAt := now1\<rparr> in
      if p_status payload = Success then
        build\<lparr>b_completedAt := Some now2,
               b_manifest := p_manifest payload,
               b_assets := p_assets payload\<rparr>
      else if p_status payload = Failed then
        build\<lparr>b_completedAt := Some now2,
               b_error := Some (case p_error payload of None \<Rightarrow> ''Unknown error'' | Some e \<Rightarrow> e)\<rparr>
      else build)"

text \<open>
  The response and the KV file after the call, for each thing the lookup can find.

  \<^item> A stored record is updated, stored again, and the lock is released.

  \<^item> For a method of \<open>Object.prototype\<close> the assignments go to that function object. Its
    \<open>id\<close> is undefined, so \<open>setBuild\<close> assigns the function to the property \<open>undefined\<close>
    of \<open>data.builds\<close>, and \<open>JSON.stringify\<close> leaves a property whose value is a function
    out of the file. The handler then releases the lock and answers with success.

  \<^item> For \<open>Object.prototype\<close> itself the assignments add properties that every object of
    the process inherits from then on, the objects of the libraries included. What the
    server does after that is not determined by the code of this repository, and the
    result is \<open>None\<close>.
\<close>

definition webhook_build_complete ::
  "string \<Rightarrow> string \<Rightarrow> WebhookPayload option \<Rightarrow> LocalKVData
     \<Rightarrow> (webhook_response \<times> LocalKVData) option"
where
  "webhook_build_complete now1 now2 body d =
     (case body of
        None \<Rightarrow> Some (WebhookError 400 ''Invalid JSON payload'', d)
      | Some payload \<Rightarrow>
          if \<not> truthy (p_buildId payload) then Some (WebhookError 400 ''Missing buildId'', d)
          else
            (case getBuild (the (p_buildId payload)) d of
               None \<Rightarrow> Some (WebhookError 404 ''Build not found'', d)
             | Some (Stored build) \<Rightarrow>
                 Some (WebhookOk,
                       releaseBuildLock (setBuild (webhook_update now1 now2 payload build) d))
             | Some (Method name) \<Rightarrow>
                 Some (WebhookOk,
                       releaseBuildLock (d\<lparr>builds := (builds d)(''undefined'' := None)\<rparr>))
             | Some ObjectPrototype \<Rightarrow> None))"

text \<open>
  The function object that a delivery writes to, and the status it writes, if the
  delivery names a method of \<open>Object.prototype\<close>.
\<close>

definition webhook_method ::
  "WebhookPayload option \<Rightarrow> LocalKVData \<Rightarrow> (string \<times> BuildStatus) option"
where
  "webhook_method body d =
     (case body of
        None \<Rightarrow> None
      | Some payload \<Rightarrow>
          if \<not> truthy (p_buildId payload) then None
          else (case getBuild (the (p_buildId payload)) d of
                  Some (Method name) \<Rightarrow> Some (name, p_status payload)
                | _ \<Rightarrow> None))"

section \<open>Builder service (LocalDockerBuilder, LocalProcessBuilder)\<close>

datatype BuilderType = Docker | Process

text \<open>A thrown JavaScript value: an \<open>Error\<close> with its message, or anything else.\<close>

datatype thrown = Error string | NonError

text \<open>
  The server: the KV file, the builder chosen by \<open>initBuilder\<close>, and the timers that
  \<open>triggerBuild\<close> has set and that have not fired. A timer's callback closes over the
  \<open>build\<close> object of the upload that set it; \<open>LocalKVService.load\<close> parses the file
  afresh on every call, so that object is shared with no record of the store.
  \<open>methodStatus\<close> is the \<open>status\<close> property of the methods of \<open>Object.prototype\<close>:
  a function object has none until a webhook delivery that names it writes one.
\<close>

record ServerState =
  kv :: LocalKVData
  builderInstance :: BuilderType
  timers :: "string \<rightharpoonup> Build"
  methodStatus :: "string \<rightharpoonup> BuildStatus"

text \<open>
  \<open>triggerBuild\<close> is the same in both builders up to the timer's callback: it marks the
  build pending, saves it, spawns the executor (\<open>spawned = Some e\<close> when \<open>spawn\<close> throws
  \<open>e\<close>) and sets the timer. It returns the mutated \<open>build\<close> object or what was thrown.
\<close>

definition triggerBuild ::
  "string \<Rightarrow> thrown option \<Rightarrow> Build \<Rightarrow> ServerState \<Rightarrow> (thrown + Build) \<times> ServerState"
where
  "triggerBuild now spawned build s =
     (let build = build\<lparr>b_status := Pending, b_updatedAt := now\<rparr>;
          s = s\<lparr>kv := setBuild build (kv s)\<rparr>
      in case spawned of
           Some e \<Rightarrow> (Inl e, s)
         | None \<Rightarrow> (Inr build, s\<lparr>timers := (timers s)(b_id build \<mapsto> build)\<rparr>))"

text \<open>
  The callbacks passed to \<open>setTimeout\<close>. The Docker builder's logs and kills the
  container; the process builder's also fails the build and releases the lock.
\<close>

definition docker_timeout :: "string \<Rightarrow> Build \<Rightarrow> LocalKVData \<Rightarrow> LocalKVData" where
  "docker_timeout now build d = d"

definition process_timeout :: "string \<Rightarrow> Build \<Rightarrow> LocalKVData \<Rightarrow> LocalKVData" where
  "process_timeout now build d =
     (let build = build\<lparr>b_status := Failed,
                          b_error := Some ''Build timed out'',
                          b_updatedAt := now\<rparr>
      in releaseBuildLock (setBuild build d))"

definition timeout_callback :: "BuilderType \<Rightarrow> string \<Rightarrow> Build \<Rightarrow> LocalKVData \<Rightarrow> LocalKVData" where
  "timeout_callback t now build d =
     (case t of Docker \<Rightarrow> docker_timeout now build d
              | Process \<Rightarrow> process_timeout now build d)"

text \<open>The timer of build \<open>buildId\<close> fires at time \<open>now\<close>; a timer fires once.\<close>

definition fire_timeout :: "string \<Rightarrow> string \<Rightarrow> ServerState \<Rightarrow> ServerState" where
  "fire_timeout buildId now s =
     (case timers s buildId of
        None \<Rightarrow> s
      | Some build \<Rightarrow>
          s\<lparr>kv := timeout_callback (builderInstance s) now build (kv s),
            timers := (timers s)(buildId := None)\<rparr>)"

section \<open>Upload route: POST /v1/upload\<close>

datatype metadata_field = MetadataMissing | MetadataInvalid | Metadata UploadRequest

text \<open>
  The form data: \<open>u_tarball\<close> is the size of the tarball file (\<open>None\<close> when the field is
  missing or not a file), \<open>u_metadata\<close> the metadata field: missing (or empty, or not a
  string), not parsable as JSON, or parsed, to an object.
\<close>

record upload_form =
  u_tarball :: "nat option"
  u_metadata :: metadata_field

text \<open>
  What the handler reads from outside: the identifier \<open>nanoid(12)\<close> returns, the clock
  (twice in the handler, once in \<open>triggerBuild\<close>), the result of \<open>storage.uploadTarball\<close>
  (a URL, or what it threw) and of \<open>spawn\<close>.
\<close>

record upload_env =
  e_nanoid :: string
  e_createdAt :: string
  e_updatedAt :: string
  e_triggeredAt :: string
  e_uploadTarball :: "thrown + string"
  e_spawn :: "thrown option"

datatype upload_response = UploadError nat string | UploadCreated string BuildStatus

definition thrown_message :: "thrown \<Rightarrow> string" where
  "thrown_message e = (case e of Error m \<Rightarrow> m | NonError \<Rightarrow> ''Upload failed'')"

text \<open>The handler from \<open>kv.acquireBuildLock()\<close> on: the lock, then the \<open>try\<close> block and its \<open>catch\<close>.\<close>

definition upload_locked ::
  "upload_env \<Rightarrow> UploadRequest \<Rightarrow> ServerState \<Rightarrow> upload_response \<times> ServerState"
where
  "upload_locked env metadata s =
     (let (lockAcquired, d) = acquireBuildLock (kv s) in
      if \<not> lockAcquired then (UploadError 429 ''Failed to acquire build lock'', s)
      else
        let s = s\<lparr>kv := d\<rparr>;
            buildId = ''bld_'' @ e_nanoid env;
            build = \<lparr>b_id = buildId,
                     b_projectSlug = the (ur_projectSlug metadata),
                     b_status = Pending,
                     b_platform = (case ur_platform metadata of None \<Rightarrow> All | Some p \<Rightarrow> p),
                     b_runtimeVersion =
                       (case ur_runtimeVersion metadata of
                          None \<Rightarrow> DEFAULT_RUNTIME_VERSION | Some v \<Rightarrow> v),
                     b_createdAt = e_createdAt env,
                     b_updatedAt = e_updatedAt env,
                     b_completedAt = None,
                     b_error = None,
                     b_expoConfig = ur_expoConfig metadata,
                     b_manifest = None,
                     b_assets = None\<rparr>;
            s = s\<lparr>kv := setBuild build (kv s)\<rparr>
        in case e_uploadTarball env of
             Inl e \<Rightarrow>
               (UploadError 500 (thrown_message e), s\<lparr>kv := releaseBuildLock (kv s)\<rparr>)
           | Inr tarballUrl \<Rightarrow>
               (case triggerBuild (e_triggeredAt env) (e_spawn env) build s of
                  (Inl e, s) \<Rightarrow>
                    (UploadError 500 (thrown_message e), s\<lparr>kv := releaseBuildLock (kv s)\<rparr>)
                | (Inr build, s) \<Rightarrow> (UploadCreated buildId (b_status build), s)))"

definition upload_post ::
  "upload_env \<Rightarrow> upload_form \<Rightarrow> ServerState \<Rightarrow> upload_response \<times> ServerState"
where
  "upload_post env form s =
     (if isBuildLocked (kv s) then
        (UploadError 429 ''A build is already in progress. Please wait.'', s)
      else
        case u_tarball form of
          None \<Rightarrow> (UploadError 400 ''Missing tarball file'', s)
        | Some tarballSize \<Rightarrow>
            (case u_metadata form of
               MetadataMissing \<Rightarrow> (UploadError 400 ''Missing metadata'', s)
             | MetadataInvalid \<Rightarrow> (UploadError 400 ''Invalid metadata JSON'', s)
             | Metadata metadata \<Rightarrow>
                 if \<not> truthy (ur_projectSlug metadata) then
                   (UploadError 400 ''Missing projectSlug in metadata'', s)
                 else if
                   (case ur_expoConfig metadata of
                      None \<Rightarrow> True
                    | Some c \<Rightarrow> \<not> (truthy (ec_name c) \<and> truthy (ec_slug c)))
                 then
                   (UploadError 400 ''Missing expoConfig.name or expoConfig.slug in metadata'', s)
                 else if tarballSize > MAX_TARBALL_SIZE_BYTES then
                   (UploadError 400 ''Tarball too large. Max size is 100MB'', s)
                 else upload_locked env metadata s))"

text \<open>
  The webhook handler, as a step of the server: the response, the KV file, and the
  status written to a function object.
\<close>

definition webhook_post ::
  "string \<Rightarrow> string \<Rightarrow> WebhookPayload option \<Rightarrow> ServerState
     \<Rightarrow> (webhook_response \<times> ServerState) option"
where
  "webhook_post now1 now2 body s =
     (case webhook_build_complete now1 now2 body (kv s) of
        None \<Rightarrow> None
      | Some (r, d) \<Rightarrow>
          Some (r, s\<lparr>kv := d,
                      methodStatus :=
                        (case webhook_method body (kv s) of
                           None \<Rightarrow> methodStatus s
                         | Some (name, status) \<Rightarrow> (methodStatus s)(name \<mapsto> status))\<rparr>))"

section \<open>Manifest generation in the API (lib/manifest.ts)\<close>

type_synonym byte = "8 word"

text \<open>
  \<open>b.toString(16).padStart(2, '0')\<close> for a byte \<open>b\<close>: its two hexadecimal digits, in
  lower case.
\<close>

definition hexDigit :: "nat \<Rightarrow> char" where
  "hexDigit n = ''0123456789abcdef'' ! n"

definition toHex2 :: "byte \<Rightarrow> string" where
  "toHex2 b = [hexDigit (unat b div 16), hexDigit (unat b mod 16)]"

text \<open>\<open>s.slice(i, j)\<close> for indices \<open>0 \<le> i \<le> j\<close>, and \<open>s.includes(t)\<close>.\<close>

definition slice :: "nat \<Rightarrow> nat \<Rightarrow> 'a list \<Rightarrow> 'a list" where
  "slice i j xs = take (j - i) (drop i xs)"

fun str_includes :: "string \<Rightarrow> string \<Rightarrow> bool" where
  "str_includes [] t = (t = [])"
| "str_includes (c # cs) t = (if take (length t) (c # cs) = t then True else str_includes cs t)"

text \<open>
  \<open>generateUUID\<close>. The digest \<open>createHash('sha256').update(input).digest()\<close> comes from
  Node's crypto module and is the parameter \<open>sha256\<close>. A write to a typed array beyond
  its end does nothing, as \<open>xs[i := v]\<close> does.
\<close>

definition generateUUID :: "(string \<Rightarrow> byte list) \<Rightarrow> string \<Rightarrow> string" where
  "generateUUID sha256 input =
     (let hash = sha256 input;
          bytes = take 16 hash;
          bytes = bytes[6 := (bytes ! 6 AND 0x0f) OR 0x40];
          bytes = bytes[8 := (bytes ! 8 AND 0x3f) OR 0x80];
          hex = concat (map toHex2 bytes)
      in slice 0 8 hex @ ''-'' @ slice 8 12 hex @ ''-'' @ slice 12 16 hex @ ''-''
           @ slice 16 20 hex @ ''-'' @ slice 20 32 hex)"

record ManifestOptions =
  o_baseUrl :: string
  o_platform :: string

text \<open>
  The scope key of a project configuration: the three lines that both
  \<open>generateManifest\<close> functions (API and builder) share.
\<close>

definition deriveScopeKey :: "ExpoClientConfig option \<Rightarrow> string" where
  "deriveScopeKey expoConfig =
     (let slug = (case expoConfig of
                    None \<Rightarrow> ''app''
                  | Some c \<Rightarrow> (case ec_slug c of None \<Rightarrow> ''app'' | Some v \<Rightarrow> v));
          owner = (case expoConfig of None \<Rightarrow> None | Some c \<Rightarrow> ec_owner c)
      in if truthy owner then ''@'' @ the owner @ ''/'' @ slug
         else ''@anonymous/'' @ slug)"

definition resolveUrl :: "string \<Rightarrow> string \<Rightarrow> string" where
  "resolveUrl assetsBaseUrl url =
     (if str_includes url ''://'' then url else assetsBaseUrl @ ''/'' @ url)"

text \<open>
  The \<open>TypeError\<close> that reading the property \<open>name\<close> of \<open>undefined\<close> throws, with the
  message Node gives it.
\<close>

definition typeError :: "string \<Rightarrow> thrown" where
  "typeError name =
     Error (''Cannot read properties of undefined (reading '' @ [CHR 0x27] @ name
              @ [CHR 0x27] @ '')'')"

text \<open>
  \<open>manifest.assets.map(asset => ...)\<close> in \<open>updateManifestUrls\<close>: the callback reads
  \<open>asset.url.includes\<close>, and throws at the first asset without a url.
\<close>

fun updateAssetUrls :: "string \<Rightarrow> ExpoAsset list \<Rightarrow> thrown + ExpoAsset list" where
  "updateAssetUrls assetsBaseUrl [] = Inr []"
| "updateAssetUrls assetsBaseUrl (asset # assets) =
     (case a_url asset of
        None \<Rightarrow> Inl (typeError ''includes'')
      | Some url \<Rightarrow>
          (case updateAssetUrls assetsBaseUrl assets of
             Inl e \<Rightarrow> Inl e
           | Inr updated \<Rightarrow>
               Inr (asset\<lparr>a_url := Some (resolveUrl assetsBaseUrl url)\<rparr> # updated)))"

text \<open>
  \<open>updateManifestUrls\<close>. It reads \<open>manifest.id.includes\<close>, \<open>manifest.launchAsset.url.includes\<close>
  and \<open>manifest.assets.map\<close> without a guard, in this order, and throws at the first that
  is missing; \<open>manifest.extra\<close> is read with \<open>?.\<close> and may be missing.
\<close>

definition updateManifestUrls ::
  "(string \<Rightarrow> byte list) \<Rightarrow> ExpoManifest \<Rightarrow> string \<Rightarrow> string \<Rightarrow> thrown + ExpoManifest"
where
  "updateManifestUrls sha256 manifest baseUrl buildId =
     (let assetsBaseUrl = baseUrl @ ''/v1/assets/'' @ buildId in
      case m_id manifest of
        None \<Rightarrow> Inl (typeError ''includes'')
      | Some manifestId \<Rightarrow>
          let id = (if str_includes manifestId ''-'' then manifestId
                    else generateUUID sha256 manifestId);
              stored = (case m_extra manifest of None \<Rightarrow> None | Some x \<Rightarrow> x_scopeKey x);
              expoClient = (case m_extra manifest of None \<Rightarrow> None | Some x \<Rightarrow> x_expoClient x);
              slug = (case expoClient of None \<Rightarrow> None | Some c \<Rightarrow> ec_slug c);
              scopeKey = (if truthy stored then the stored
                          else if truthy slug then ''@anonymous/'' @ the slug
                          else ''@anonymous/app'')
          in case m_launchAsset manifest of
               None \<Rightarrow> Inl (typeError ''url'')
             | Some launchAsset \<Rightarrow>
                 (case a_url launchAsset of
                    None \<Rightarrow> Inl (typeError ''includes'')
                  | Some url \<Rightarrow>
                      (case m_assets manifest of
                         None \<Rightarrow> Inl (typeError ''map'')
                       | Some assets \<Rightarrow>
                           (case updateAssetUrls assetsBaseUrl assets of
                              Inl e \<Rightarrow> Inl e
                            | Inr updated \<Rightarrow>
                                Inr (manifest
                                  \<lparr>m_id := Some id,
                                   m_extra := Some \<lparr>x_scopeKey = Some scopeKey,
                                                     x_expoClient = expoClient\<rparr>,
                                   m_launchAsset :=
                                     Some (launchAsset
                                             \<lparr>a_url := Some (resolveUrl assetsBaseUrl url)\<rparr>),
                                   m_assets := Some updated\<rparr>)))))"

text \<open>
  \<open>generateManifest\<close>. The asset metadata of a record (\<open>build.assets\<close>) is taken as
  declared: the function only copies its fields.
\<close>

definition generateManifest ::
  "(string \<Rightarrow> byte list) \<Rightarrow> Build \<Rightarrow> ManifestOptions \<Rightarrow> thrown + ExpoManifest"
where
  "generateManifest sha256 build options =
     (case b_manifest build of
        Some manifest \<Rightarrow> updateManifestUrls sha256 manifest (o_baseUrl options) (b_id build)
      | None \<Rightarrow>
          let assetsBaseUrl = o_baseUrl options @ ''/v1/assets/'' @ b_id build;
              launchAsset = \<lparr>a_key = Some ''bundle'', a_hash = Some [],
                              a_contentType = Some MIME_JAVASCRIPT, a_fileExtension = None,
                              a_url = Some (assetsBaseUrl @ ''/bundles/'' @ o_platform options
                                              @ ''.js'')\<rparr>;
              assets = map (\<lambda>asset. \<lparr>a_key = Some (am_key asset), a_hash = Some (am_hash asset),
                                        a_contentType = Some (am_contentType asset),
                                        a_fileExtension = am_fileExtension asset,
                                        a_url = Some (assetsBaseUrl @ ''/'' @ am_path asset)\<rparr>)
                         (filter (\<lambda>a. am_key a \<noteq> ''bundle'')
                            (case b_assets build of None \<Rightarrow> [] | Some as \<Rightarrow> as));
              scopeKey = deriveScopeKey (b_expoConfig build)
          in Inr \<lparr>m_id = Some (generateUUID sha256 (b_id build)),
                  m_createdAt = Some (b_createdAt build),
                  m_runtimeVersion = Some (b_runtimeVersion build),
                  m_launchAsset = Some launchAsset,
                  m_assets = Some assets,
                  m_metadata = Some [],
                  m_extra = Some \<lparr>x_scopeKey = Some scopeKey,
                                    x_expoClient = b_expoConfig build\<rparr>\<rparr>)"

section \<open>Manifest generation in the builder (build.ts)\<close>

record Bundles =
  ios :: "string option"
  android :: "string option"

record PlatformFiles =
  pf_bundle :: "string option"
  pf_assets :: "string list"

record FileMetadata =
  fm_ios :: "PlatformFiles option"
  fm_android :: "PlatformFiles option"

text \<open>The bundle paths that \<open>collectAssets\<close> takes from \<open>metadata.json\<close>.\<close>

definition collectBundles :: "FileMetadata \<Rightarrow> Bundles" where
  "collectBundles fileMetadata =
     (let bundles = \<lparr>ios = None, android = None\<rparr>;
          iosBundle = (case fm_ios fileMetadata of None \<Rightarrow> None | Some f \<Rightarrow> pf_bundle f);
          bundles = (if truthy iosBundle then bundles\<lparr>ios := iosBundle\<rparr> else bundles);
          androidBundle =
            (case fm_android fileMetadata of None \<Rightarrow> None | Some f \<Rightarrow> pf_bundle f);
          bundles = (if truthy androidBundle then bundles\<lparr>android := androidBundle\<rparr>
                     else bundles)
      in bundles)"

text \<open>
  The builder's \<open>generateManifest\<close>. \<open>extname\<close> (Node's path module) and the clock are
  parameters; a thrown \<open>Error\<close> is the left summand.
\<close>

definition generateManifest_builder ::
  "(string \<Rightarrow> string) \<Rightarrow> string \<Rightarrow> string \<Rightarrow> string \<Rightarrow> ExpoClientConfig option
     \<Rightarrow> AssetMetadata list \<Rightarrow> Bundles \<Rightarrow> string \<Rightarrow> thrown + ExpoManifest"
where
  "generateManifest_builder extname now buildId runtimeVersion expoConfig assets bundles platform =
     (let bundlePath = (if platform = ''ios'' then ios bundles
                        else (case android bundles of
                                Some p \<Rightarrow> Some p
                              | None \<Rightarrow> ios bundles))
      in if \<not> truthy bundlePath then
           Inl (Error (''No bundle path found for platform '' @ platform))
         else
           case find (\<lambda>a. am_path a = the bundlePath) assets of
             None \<Rightarrow>
               Inl (Error (''Bundle not found at path '' @ the bundlePath
                             @ '' for platform '' @ platform))
           | Some bundleAsset \<Rightarrow>
               let bundleExt = extname (the bundlePath);
                   bundleContentType = (if bundleExt = ''.hbc'' then ''application/javascript''
                                        else MIME_JAVASCRIPT);
                   launchAsset = \<lparr>a_key = Some ''bundle'', a_hash = Some (am_hash bundleAsset),
                                   a_contentType = Some bundleContentType,
                                   a_fileExtension = None,
                                   a_url = Some (''bundles/'' @ platform @ bundleExt)\<rparr>;
                   bundlePaths = map the (filter truthy [ios bundles, android bundles]);
                   otherAssets =
                     map (\<lambda>asset. \<lparr>a_key = Some (am_key asset), a_hash = Some (am_hash asset),
                                     a_contentType = Some (am_contentType asset),
                                     a_fileExtension = am_fileExtension asset,
                                     a_url = Some (am_path asset)\<rparr>)
                       (filter (\<lambda>a. am_path a \<notin> set bundlePaths \<and> am_path a \<noteq> ''metadata.json'')
                          assets);
                   scopeKey = deriveScopeKey expoConfig
               in Inr \<lparr>m_id = Some buildId,
                        m_createdAt = Some now,
                        m_runtimeVersion = Some runtimeVersion,
                        m_launchAsset = Some launchAsset,
                        m_assets = Some otherAssets,
                        m_metadata = Some [],
                        m_extra = Some \<lparr>x_scopeKey = Some scopeKey,
                                          x_expoClient = expoConfig\<rparr>\<rparr>)"

section \<open>Manifest route: GET /v1/manifest/:id\<close>

definition CRLF :: string where
  "CRLF = [CHR 0x0D, CHR 0x0A]"

text \<open>\<open>parts.join(sep)\<close>.\<close>

fun join :: "string \<Rightarrow> string list \<Rightarrow> string" where
  "join sep [] = []"
| "join sep [x] = x"
| "join sep (x # y # ys) = x @ sep @ join sep (y # ys)"

text \<open>
  \<open>createMultipartResponse\<close>. \<open>JSON.stringify\<close> on the manifest is the parameter
  \<open>stringify\<close>; on the constant extensions object it yields the text written out here.
\<close>

definition createMultipartResponse ::
  "(ExpoManifest \<Rightarrow> string) \<Rightarrow> ExpoManifest \<Rightarrow> string \<Rightarrow> string"
where
  \<open>createMultipartResponse stringify manifestJson boundary =
     (let parts = [''--'' @ boundary,
                   ''Content-Disposition: form-data; name="manifest"'',
                   ''Content-Type: application/json'',
                   [],
                   stringify manifestJson,
                   ''--'' @ boundary,
                   ''Content-Disposition: form-data; name="extensions"'',
                   ''Content-Type: application/json'',
                   [],
                   ''{"assetRequestHeaders":{}}'',
                   ''--'' @ boundary @ ''--'',
                   []]
      in join CRLF parts)\<close>

text \<open>
  The request: the \<open>:id\<close> parameter, the headers the handler reads, and the protocol and
  host of the request URL.
\<close>

record manifest_request =
  r_buildId :: string
  r_platform :: "string option"
  r_runtimeVersion :: "string option"
  r_protocolVersion :: "string option"
  r_accept :: "string option"
  r_forwardedProto :: "string option"
  r_forwardedHost :: "string option"
  r_host :: "string option"
  r_urlProtocol :: string
  r_urlHost :: string

text \<open>
  The responses: an error with its status code and message; the 404 answer
  \<open>Build not ready\<close> with the \<open>status\<close> property of what the lookup found, when it has
  one; the multipart or the JSON manifest, with the headers of the response.
\<close>

datatype manifest_response =
    ManifestError nat string
  | BuildNotReady "BuildStatus option"
  | Multipart "(string \<times> string) list" string
  | ExpoJson "(string \<times> string) list" ExpoManifest

text \<open>
  The handler. \<open>dateNow\<close> is \<open>Date.now()\<close> as the string that \<open>build.id + Date.now()\<close>
  appends. The warning logged on a runtime version mismatch changes nothing and is left
  out. What \<open>generateManifest\<close> throws reaches the error handler of the application
  (\<open>app.onError\<close>), which answers 500.

  The responses carry the headers in the order in which they are set. In the multipart
  answer the Content-Type is the one set with \<open>c.header\<close>. In the JSON answer it is the one
  that \<open>c.json\<close> gives its response, \<open>application/json\<close>, which replaces the
  \<open>application/expo+json\<close> set on the line before.

  When the lookup finds a method of \<open>Object.prototype\<close>, \<open>build.status\<close> is what a webhook
  delivery has written to that function object, if any; when it is \<open>success\<close> the handler
  goes on and throws, at the latest where it hashes the undefined \<open>build.id\<close>. The
  prototype itself has no \<open>status\<close>.
\<close>

definition manifest_get ::
  "(string \<Rightarrow> byte list) \<Rightarrow> (ExpoManifest \<Rightarrow> string) \<Rightarrow> string \<Rightarrow> manifest_request
     \<Rightarrow> ServerState \<Rightarrow> manifest_response"
where
  "manifest_get sha256 stringify dateNow req s =
     (let platform = r_platform req;
          protocolVersion = r_protocolVersion req;
          accept = (case r_accept req of None \<Rightarrow> [] | Some a \<Rightarrow> a)
      in if truthy protocolVersion \<and> the protocolVersion \<noteq> EXPO_PROTOCOL_VERSION then
           ManifestError 400 (''Unsupported protocol version: '' @ the protocolVersion)
         else
           case getBuild (r_buildId req) (kv s) of
             None \<Rightarrow> ManifestError 404 ''Build not found''
           | Some ObjectPrototype \<Rightarrow> BuildNotReady None
           | Some (Method name) \<Rightarrow>
               if methodStatus s name = Some Success then
                 ManifestError 500 ''Internal server error''
               else BuildNotReady (methodStatus s name)
           | Some (Stored build) \<Rightarrow>
               if b_status build \<noteq> Success then BuildNotReady (Some (b_status build))
               else
                 let targetPlatform =
                       (if platform = Some ''ios'' \<or> platform = Some ''android''
                        then the platform else ''ios'');
                     forwardedProto = r_forwardedProto req;
                     forwardedHost = (case r_forwardedHost req of
                                        Some h \<Rightarrow> Some h
                                      | None \<Rightarrow> r_host req);
                     protocol = (if truthy forwardedProto then the forwardedProto @ '':''
                                 else r_urlProtocol req);
                     host = (case forwardedHost of Some h \<Rightarrow> h | None \<Rightarrow> r_urlHost req);
                     baseUrl = protocol @ ''//'' @ host
                 in case generateManifest sha256 build
                           \<lparr>o_baseUrl = baseUrl, o_platform = targetPlatform\<rparr> of
                      Inl e \<Rightarrow> ManifestError 500 ''Internal server error''
                    | Inr expoManifest \<Rightarrow>
                        let manifestId = generateUUID sha256 (b_id build);
                            manifestWithUUID = expoManifest\<lparr>m_id := Some manifestId\<rparr>;
                            headers = [(''expo-protocol-version'', EXPO_PROTOCOL_VERSION),
                                       (''expo-sfv-version'', EXPO_SFV_VERSION),
                                       (''expo-manifest-filters'', []),
                                       (''expo-server-defined-headers'', []),
                                       (''expo-update-id'', manifestId),
                                       (''Cache-Control'', ''private, max-age=0'')]
                        in if str_includes accept ''multipart/mixed'' then
                             let boundary =
                                   ''----ExpoManifestBoundary-''
                                     @ slice 0 22 (generateUUID sha256 (b_id build @ dateNow));
                                 body = createMultipartResponse stringify manifestWithUUID boundary
                             in Multipart
                                  (headers @ [(''Content-Type'',
                                               ''multipart/mixed; boundary='' @ boundary)])
                                  body
                           else
                             ExpoJson (headers @ [(''Content-Type'', ''application/json'')])
                               manifestWithUUID)"

section \<open>Reading a multipart body\<close>

text \<open>
  How a client takes a multipart body apart (RFC 2046): the lines of the body, the parts
  between the delimiter lines \<open>--boundary\<close> up to the closing \<open>--boundary--\<close>, and for
  each part its name (from the Content-Disposition header) and its content (after the
  blank line).
\<close>

fun split_crlf :: "string \<Rightarrow> string list" where
  "split_crlf [] = [[]]"
| "split_crlf [c] = [[c]]"
| "split_crlf (c # d # cs) =
     (if c = CHR 0x0D \<and> d = CHR 0x0A then [] # split_crlf cs
      else (case split_crlf (d # cs) of
              [] \<Rightarrow> [[c]]
            | l # ls \<Rightarrow> (c # l) # ls))"






section \<open>Reachable states and the manifest invariant of the data model\<close>

text \<open>The server after \<open>initKV\<close> on a fresh file and \<open>initBuilder t\<close>.\<close>

definition fresh_server :: "BuilderType \<Rightarrow> ServerState" where
  "fresh_server t =
     \<lparr>kv = \<lparr>builds = Map.empty, apiKeys = [''lk_test_dev_key_12345''], buildLock = False\<rparr>,
      builderInstance = t, timers = Map.empty, methodStatus = Map.empty\<rparr>"

definition manifest_invariant :: "Build \<Rightarrow> bool" where
  "manifest_invariant b = ((b_manifest b \<noteq> None) = (b_status b = Success))"

definition store_invariant :: "LocalKVData \<Rightarrow> bool" where
  "store_invariant d = (\<forall>k b. builds d k = Some b \<longrightarrow> manifest_invariant b)"

text \<open>
  Every stored record satisfies the invariant, and no build object held by a timer
  carries a manifest.
\<close>

definition server_invariant :: "ServerState \<Rightarrow> bool" where
  "server_invariant s =
     (store_invariant (kv s) \<and> (\<forall>k b. timers s k = Some b \<longrightarrow> b_manifest b = None))"

text \<open>
  The deliveries under which the invariant is kept: a success payload carries a manifest,
  and a payload with any other status is not delivered for a build whose record is
  already \<open>success\<close>.
\<close>

definition webhook_admissible :: "WebhookPayload option \<Rightarrow> LocalKVData \<Rightarrow> bool" where
  "webhook_admissible body d =
     (case body of
        None \<Rightarrow> True
      | Some payload \<Rightarrow>
          if p_status payload = Success then p_manifest payload \<noteq> None
          else (case p_buildId payload of
                  None \<Rightarrow> True
                | Some buildId \<Rightarrow>
                    (case getBuild buildId d of
                       Some (Stored build) \<Rightarrow> b_status build \<noteq> Success
                     | _ \<Rightarrow> True)))"

text \<open>
  The states the server reaches from a fresh start by submissions, timers firing and
  admissible webhook deliveries. A delivery that names \<open>__proto__\<close> has no result in
  \<open>webhook_post\<close>, and so leads to no state here.
\<close>

inductive reachable :: "ServerState \<Rightarrow> bool" where
  init: "reachable (fresh_server t)"
| upload: "reachable s \<Longrightarrow> reachable (snd (upload_post env form s))"
| timeout: "reachable s \<Longrightarrow> reachable (fire_timeout buildId now s)"
| webhook: "reachable s \<Longrightarrow> webhook_admissible body (kv s)
            \<Longrightarrow> webhook_post now1 now2 body s = Some (r, s')
            \<Longrightarrow> reachable s'"

section \<open>The shape of a version 4 UUID\<close>

definition isHexDigit :: "char \<Rightarrow> bool" where
  "isHexDigit c = (c \<in> set ''0123456789abcdef'')"

text \<open>
  The canonical form \<open>xxxxxxxx-xxxx-4xxx-Vxxx-xxxxxxxxxxxx\<close>: 36 characters, hyphens at
  positions 8, 13, 18 and 23, lower-case hexadecimal digits elsewhere, the version digit
  \<open>4\<close> at position 14 and a variant digit \<open>V\<close> among 8, 9, a, b at position 19.
\<close>

definition canonical_uuid_v4 :: "string \<Rightarrow> bool" where
  "canonical_uuid_v4 u =
     (length u = 36
      \<and> list_all isHexDigit (slice 0 8 u) \<and> u ! 8 = CHR ''-''
      \<and> list_all isHexDigit (slice 9 13 u) \<and> u ! 13 = CHR ''-''
      \<and> list_all isHexDigit (slice 14 18 u) \<and> u ! 18 = CHR ''-''
      \<and> list_all isHexDigit (slice 19 23 u) \<and> u ! 23 = CHR ''-''
      \<and> list_all isHexDigit (slice 24 36 u)
      \<and> u ! 14 = CHR ''4''
      \<and> u ! 19 \<in> set ''89ab'')"

section \<open>Observations on manifests\<close>

definition scopeKeyOf :: "ExpoManifest \<Rightarrow> string option" where
  "scopeKeyOf m = (case m_extra m of None \<Rightarrow> None | Some x \<Rightarrow> x_scopeKey x)"

text \<open>The slug of the project configuration that a manifest carries in \<open>extra.expoClient\<close>.\<close>

definition expoClientSlug :: "ExpoManifest \<Rightarrow> string option" where
  "expoClientSlug m =
     (case m_extra m of
        None \<Rightarrow> None
      | Some x \<Rightarrow> (case x_expoClient x of None \<Rightarrow> None | Some c \<Rightarrow> ec_slug c))"

text \<open>The content hash of the launch asset of a generated manifest, if one was generated.\<close>

definition launchHash :: "thrown + ExpoManifest \<Rightarrow> string option" where
  "launchHash r =
     (case r of
        Inl e \<Rightarrow> None
      | Inr m \<Rightarrow> (case m_launchAsset m of None \<Rightarrow> None | Some a \<Rightarrow> a_hash a))"

text \<open>
  A manifest that \<open>updateManifestUrls\<close> reads without throwing: it has an id, a launch
  asset with a url, and a list of assets that each have a url.
\<close>

definition manifest_readable :: "ExpoManifest \<Rightarrow> bool" where
  "manifest_readable m =
     (m_id m \<noteq> None
      \<and> (case m_launchAsset m of None \<Rightarrow> False | Some a \<Rightarrow> a_url a \<noteq> None)
      \<and> (case m_assets m of None \<Rightarrow> False | Some as \<Rightarrow> list_all (\<lambda>a. a_url a \<noteq> None) as))"


section \<open>Example inputs\<close>

definition ex_config :: ExpoClientConfig where
  "ex_config = \<lparr>ec_name = Some ''App'', ec_slug = Some ''app'', ec_owner = Some ''acme'',
                 ec_version = None, ec_sdkVersion = None, ec_platforms = None\<rparr>"

definition ex_request :: UploadRequest where
  "ex_request = \<lparr>ur_projectSlug = Some ''proj'', ur_platform = Some Ios,
                  ur_runtimeVersion = None, ur_expoConfig = Some ex_config\<rparr>"

definition ex_form :: upload_form where
  "ex_form = \<lparr>u_tarball = Some 1024, u_metadata = Metadata ex_request\<rparr>"

definition ex_env :: upload_env where
  "ex_env = \<lparr>e_nanoid = ''a'', e_createdAt = ''t0'', e_updatedAt = ''t0'',
              e_triggeredAt = ''t1'',
              e_uploadTarball = Inr ''http://localhost:3000/storage/tarballs/bld_a.tar.gz'',
              e_spawn = None\<rparr>"

text \<open>A pending build in flight: its record is stored and the lock is held.\<close>

definition ex_build :: Build where
  "ex_build = \<lparr>b_id = ''bld_a'', b_projectSlug = ''proj'', b_status = Pending,
                b_platform = Ios, b_runtimeVersion = ''exposdk:52.0.0'',
                b_createdAt = ''t0'', b_updatedAt = ''t1'', b_completedAt = None,
                b_error = None, b_expoConfig = Some ex_config, b_manifest = None,
                b_assets = None\<rparr>"

definition ex_kv :: LocalKVData where
  "ex_kv = \<lparr>builds = [''bld_a'' \<mapsto> ex_build], apiKeys = [''lk_test_dev_key_12345''],
             buildLock = True\<rparr>"

text \<open>The server with that build in flight, its timer set.\<close>

definition ex_inflight :: "BuilderType \<Rightarrow> ServerState" where
  "ex_inflight t = \<lparr>kv = ex_kv, builderInstance = t, timers = [''bld_a'' \<mapsto> ex_build],
                     methodStatus = Map.empty\<rparr>"

definition ex_failed :: WebhookPayload where
  "ex_failed = \<lparr>p_buildId = Some ''bld_a'', p_status = Failed, p_error = Some ''boom'',
                 p_manifest = None, p_assets = None\<rparr>"

definition ex_launch :: ExpoAsset where
  "ex_launch = \<lparr>a_key = Some ''bundle'', a_hash = Some ''h0'',
                 a_contentType = Some ''application/javascript'',
                 a_fileExtension = None, a_url = Some ''bundles/ios.js''\<rparr>"

definition ex_manifest :: ExpoManifest where
  "ex_manifest = \<lparr>m_id = Some ''bld_a'', m_createdAt = Some ''t2'',
                   m_runtimeVersion = Some ''exposdk:52.0.0'',
                   m_launchAsset = Some ex_launch, m_assets = Some [], m_metadata = Some [],
                   m_extra = Some \<lparr>x_scopeKey = Some ''@acme/app'',
                                     x_expoClient = Some ex_config\<rparr>\<rparr>"

definition ex_success :: WebhookPayload where
  "ex_success = \<lparr>p_buildId = Some ''bld_a'', p_status = Success, p_error = None,
                  p_manifest = Some ex_manifest, p_assets = Some []\<rparr>"

text \<open>The record of the build after that delivery at clock readings \<open>t2\<close>, \<open>t3\<close>.\<close>

definition ex_build_done :: Build where
  "ex_build_done = ex_build\<lparr>b_status := Success, b_updatedAt := ''t2'',
                     b_completedAt := Some ''t3'', b_manifest := Some ex_manifest,
                     b_assets := Some []\<rparr>"

definition ex_done :: "BuilderType \<Rightarrow> ServerState" where
  "ex_done t = \<lparr>kv = \<lparr>builds = [''bld_a'' \<mapsto> ex_build_done],
                         apiKeys = [''lk_test_dev_key_12345''], buildLock = False\<rparr>,
                 builderInstance = t, timers = [''bld_a'' \<mapsto> ex_build],
                 methodStatus = Map.empty\<rparr>"

definition ex_success_no_manifest :: WebhookPayload where
  "ex_success_no_manifest = \<lparr>p_buildId = Some ''bld_a'', p_status = Success, p_error = None,
                 p_manifest = None, p_assets = None\<rparr>"

text \<open>
  A digest function that agrees with SHA-256 on the two inputs of the examples, the build
  id \<open>bld_a\<close> and the build id followed by the clock reading \<open>1700000000000\<close>.
\<close>

definition ex_sha256 :: "string \<Rightarrow> byte list" where
  "ex_sha256 input =
     (if input = ''bld_a'' then
        [181, 120, 169, 174, 240, 89, 112, 163, 84, 64, 48, 226, 70, 207, 181, 14,
         144, 226, 38, 181, 96, 115, 155, 74, 122, 203, 182, 41, 191, 249, 152, 43]
      else if input = ''bld_a1700000000000'' then
        [227, 183, 59, 209, 31, 169, 240, 220, 219, 145, 103, 98, 93, 71, 239, 107,
         92, 255, 160, 53, 126, 180, 15, 21, 252, 230, 126, 193, 238, 113, 87, 76]
      else replicate 32 0)"


text \<open>A build output with an iOS bundle only.\<close>

definition ex_assets :: "AssetMetadata list" where
  "ex_assets =
     [\<lparr>am_key = ''assets/icon.png'', am_hash = ''h-icon'', am_contentType = ''image/png'',
       am_fileExtension = Some ''.png'', am_path = ''assets/icon.png''\<rparr>,
      \<lparr>am_key = ''_expo/static/js/ios/index.js'', am_hash = ''h-ios'',
       am_contentType = ''application/javascript'', am_fileExtension = Some ''.js'',
       am_path = ''_expo/static/js/ios/index.js''\<rparr>]"

definition ex_bundles :: Bundles where
  "ex_bundles = \<lparr>ios = Some ''_expo/static/js/ios/index.js'', android = None\<rparr>"

text \<open>
  A manifest request of an Expo client for the finished build, the manifest served for
  it, and a serialiser that returns the JSON text of that manifest.
\<close>

definition ex_manifest_request :: manifest_request where
  "ex_manifest_request =
     \<lparr>r_buildId = ''bld_a'', r_platform = Some ''ios'',
      r_runtimeVersion = Some ''exposdk:52.0.0'', r_protocolVersion = Some ''1'',
      r_accept = Some ''multipart/mixed'', r_forwardedProto = None, r_forwardedHost = None,
      r_host = Some ''localhost:3000'', r_urlProtocol = ''http:'',
      r_urlHost = ''localhost:3000''\<rparr>"



definition ex_fileMetadata :: FileMetadata where
  "ex_fileMetadata =
     \<lparr>fm_ios = Some \<lparr>pf_bundle = Some ''_expo/static/js/ios/index.js'',
                      pf_assets = [''assets/icon.png'']\<rparr>,
      fm_android = None\<rparr>"

text \<open>A delivery for a build id under which nothing is stored, \<open>constructor\<close>.\<close>

definition ex_constructor :: WebhookPayload where
  "ex_constructor = \<lparr>p_buildId = Some ''constructor'', p_status = Failed,
                      p_error = Some ''boom'', p_manifest = None, p_assets = None\<rparr>"





section \<open>Properties of the build lifecycle\<close>

lemmas ex_defs = ex_config_def ex_request_def ex_form_def ex_env_def fresh_server_def
  ex_build_def ex_kv_def ex_inflight_def ex_failed_def ex_success_no_manifest_def
  ex_launch_def ex_manifest_def ex_success_def ex_build_done_def ex_done_def

lemmas handler_defs = upload_post_def upload_locked_def isBuildLocked_def acquireBuildLock_def
  releaseBuildLock_def setBuild_def getBuild_def triggerBuild_def truthy_def
  MAX_TARBALL_SIZE_BYTES_def DEFAULT_RUNTIME_VERSION_def thrown_message_def
  fire_timeout_def timeout_callback_def docker_timeout_def process_timeout_def
  webhook_post_def webhook_build_complete_def webhook_update_def

subsection \<open>The webhook resolver\<close>

lemma webhook_update_id: "b_id (webhook_update now1 now2 payload build) = b_id build"
  by (simp add: webhook_update_def Let_def)

lemma webhook_first:
  assumes "p_buildId payload = Some buildId" and "buildId \<noteq> []"
    and "getBuild buildId d = Some (Stored build)" and "b_id build = buildId"
  shows "webhook_build_complete now1 now2 (Some payload) d
           = Some (WebhookOk,
              \<lparr>builds = (builds d)(buildId \<mapsto> webhook_update now1 now2 payload build),
               apiKeys = apiKeys d, buildLock = False\<rparr>)"
  using assms
  by (simp add: webhook_build_complete_def truthy_def setBuild_def releaseBuildLock_def
      webhook_update_id)

lemma webhook_update_status:
  "b_status (webhook_update now1 now2 payload build) = p_status payload"
  by (simp add: webhook_update_def Let_def)

lemma webhook_update_twice:
  assumes "p_status payload = Success \<or> p_status payload = Failed"
  shows "webhook_update t2 t2' payload (webhook_update t1 t1' payload build)
           = (webhook_update t1 t1' payload build)
               \<lparr>b_updatedAt := t2, b_completedAt := Some t2'\<rparr>"
  using assms by (auto simp add: webhook_update_def Let_def)

lemma webhook_missing_buildId:
  "\<not> truthy (p_buildId payload) \<Longrightarrow>
     webhook_build_complete now1 now2 (Some payload) d
       = Some (WebhookError 400 ''Missing buildId'', d)"
  by (simp add: webhook_build_complete_def)

text \<open>
  The lookup finds nothing exactly when no record is stored under the name and
  \<open>Object.prototype\<close> has no property of that name. Only then is a delivery answered with
  404 and the store left as it was.
\<close>

lemma getBuild_None:
  "getBuild buildId d = None
     \<longleftrightarrow> builds d buildId = None \<and> buildId \<noteq> ''__proto__''
         \<and> buildId \<notin> set objectPrototypeMethods"
  by (simp add: getBuild_def split: option.splits)

lemma webhook_not_found:
  assumes "p_buildId payload = Some buildId" and "buildId \<noteq> []"
    and "getBuild buildId d = None"
  shows "webhook_build_complete now1 now2 (Some payload) d
           = Some (WebhookError 404 ''Build not found'', d)"
  using assms by (simp add: webhook_build_complete_def truthy_def)

lemma webhook_not_found_iff:
  assumes "p_buildId payload = Some buildId" and "buildId \<noteq> []"
  shows "(\<exists>d'. webhook_build_complete now1 now2 (Some payload) d
                 = Some (WebhookError 404 ''Build not found'', d'))
           \<longleftrightarrow> getBuild buildId d = None"
  using assms
  by (auto simp add: webhook_build_complete_def truthy_def
      split: option.splits property.splits)

lemma webhook_not_found_example:
  "webhook_build_complete ''t2'' ''t3'' (Some (ex_failed\<lparr>p_buildId := Some ''bld_zzz''\<rparr>)) ex_kv
     = Some (WebhookError 404 ''Build not found'', ex_kv)"
  by (simp add: webhook_build_complete_def truthy_def getBuild_def ex_kv_def ex_failed_def
      objectPrototypeMethods_def)

text \<open>
  A delivery that names a method of \<open>Object.prototype\<close>, with no record stored under that
  name, is answered with success and releases the lock; no record is written.
\<close>

lemma webhook_method_name:
  assumes "p_buildId payload = Some name" and "name \<in> set objectPrototypeMethods"
    and "builds d name = None"
  shows "webhook_build_complete now1 now2 (Some payload) d
           = Some (WebhookOk,
                   \<lparr>builds = (builds d)(''undefined'' := None), apiKeys = apiKeys d,
                    buildLock = False\<rparr>)"
proof -
  have "name \<noteq> []" and "name \<noteq> ''__proto__''"
    using assms(2) by (auto simp add: objectPrototypeMethods_def)
  then have "getBuild name d = Some (Method name)"
    using assms(2,3) by (simp add: getBuild_def)
  then show ?thesis
    using assms(1) \<open>name \<noteq> []\<close>
    by (simp add: webhook_build_complete_def truthy_def releaseBuildLock_def)
qed

text \<open>
  C5 fails for a build id that is the name of a method of \<open>Object.prototype\<close>. With the
  build \<open>bld_a\<close> in flight and the lock held, a delivery for the build id \<open>constructor\<close>,
  under which nothing is stored, is not answered with 404: the handler answers with
  success and releases the lock, the records of the store unchanged.
\<close>

theorem webhook_unknown_build_releases_lock:
  "builds ex_kv ''constructor'' = None
   \<and> buildLock ex_kv
   \<and> webhook_build_complete ''t2'' ''t3'' (Some ex_constructor) ex_kv
       = Some (WebhookOk, ex_kv\<lparr>buildLock := False\<rparr>)"
  by (simp add: webhook_build_complete_def truthy_def getBuild_def releaseBuildLock_def
      ex_kv_def ex_constructor_def objectPrototypeMethods_def)

text \<open>
  As a step of the server, that delivery also writes its status to the function object,
  where a manifest request for \<open>constructor\<close> reads it; and with the lock released a
  second submission is accepted while \<open>bld_a\<close> is still pending.
\<close>

lemma ex_constructor_delivered:
  "webhook_post ''t2'' ''t3'' (Some ex_constructor) (ex_inflight t)
     = Some (WebhookOk,
             (ex_inflight t)\<lparr>kv := ex_kv\<lparr>buildLock := False\<rparr>,
                              methodStatus := [''constructor'' \<mapsto> Failed]\<rparr>)"
  by (simp add: webhook_post_def webhook_method_def webhook_build_complete_def truthy_def
      getBuild_def releaseBuildLock_def ex_inflight_def ex_kv_def ex_constructor_def
      objectPrototypeMethods_def)

lemma ex_manifest_of_constructor:
  "manifest_get sha256 stringify dateNow (ex_manifest_request\<lparr>r_buildId := ''constructor''\<rparr>)
       (ex_inflight t) = BuildNotReady None
   \<and> manifest_get sha256 stringify dateNow (ex_manifest_request\<lparr>r_buildId := ''constructor''\<rparr>)
       ((ex_inflight t)\<lparr>kv := ex_kv\<lparr>buildLock := False\<rparr>,
                        methodStatus := [''constructor'' \<mapsto> Failed]\<rparr>)
       = BuildNotReady (Some Failed)"
  by (simp add: manifest_get_def ex_manifest_request_def ex_inflight_def ex_kv_def
      getBuild_def truthy_def EXPO_PROTOCOL_VERSION_def objectPrototypeMethods_def)

lemma second_build_in_flight:
  "\<exists>s1 s2.
     webhook_post ''t2'' ''t3'' (Some ex_constructor) (ex_inflight t) = Some (WebhookOk, s1)
     \<and> upload_post (ex_env\<lparr>e_nanoid := ''b''\<rparr>) ex_form s1
           = (UploadCreated ''bld_b'' Pending, s2)
     \<and> map_option b_status (builds (kv s2) ''bld_a'') = Some Pending
     \<and> map_option b_status (builds (kv s2) ''bld_b'') = Some Pending"
  unfolding ex_constructor_delivered
  by (simp add: ex_defs handler_defs Let_def)

text \<open>
  C1, as the code has it. The handler does not look at the stored status: a second
  delivery of the same terminal outcome is answered with success, releases the lock
  again and writes the record once more, with every field as the first delivery left
  it except \<open>updatedAt\<close> and \<open>completedAt\<close>, which take the clock readings of the second
  call. (The record is stored under its own id, as \<open>setBuild\<close> stores every record.)
\<close>

theorem webhook_redelivery:
  assumes "p_buildId payload = Some buildId" and "buildId \<noteq> []"
    and "getBuild buildId d = Some (Stored build)" and "b_id build = buildId"
    and "p_status payload = Success \<or> p_status payload = Failed"
  shows "\<exists>d1 d2 b1.
           webhook_build_complete t1 t1' (Some payload) d = Some (WebhookOk, d1)
           \<and> webhook_build_complete t2 t2' (Some payload) d1 = Some (WebhookOk, d2)
           \<and> \<not> buildLock d2
           \<and> getBuild buildId d1 = Some (Stored b1) \<and> b_status b1 = p_status payload
           \<and> d2 = d1\<lparr>builds := (builds d1)(buildId \<mapsto>
                         b1\<lparr>b_updatedAt := t2, b_completedAt := Some t2'\<rparr>)\<rparr>"
proof -
  let ?b1 = "webhook_update t1 t1' payload build"
  let ?d1 = "\<lparr>builds = (builds d)(buildId \<mapsto> ?b1), apiKeys = apiKeys d, buildLock = False\<rparr>"
  let ?d2 = "\<lparr>builds = (builds ?d1)(buildId \<mapsto> webhook_update t2 t2' payload ?b1),
              apiKeys = apiKeys ?d1, buildLock = False\<rparr>"
  have first: "webhook_build_complete t1 t1' (Some payload) d = Some (WebhookOk, ?d1)"
    using assms(1-4) by (rule webhook_first)
  have g1: "getBuild buildId ?d1 = Some (Stored ?b1)"
    by (simp add: getBuild_def)
  have id1: "b_id ?b1 = buildId"
    using assms(4) by (simp add: webhook_update_id)
  have second: "webhook_build_complete t2 t2' (Some payload) ?d1 = Some (WebhookOk, ?d2)"
    using assms(1,2) g1 id1 by (rule webhook_first)
  have st: "b_status ?b1 = p_status payload"
    by (rule webhook_update_status)
  have upd: "?d2 = ?d1\<lparr>builds := (builds ?d1)(buildId \<mapsto>
                         ?b1\<lparr>b_updatedAt := t2, b_completedAt := Some t2'\<rparr>)\<rparr>"
    by (simp add: webhook_update_twice [OF assms(5)])
  have lock: "\<not> buildLock ?d2"
    by simp
  from first second lock g1 st upd show ?thesis
    by blast
qed

theorem webhook_redelivery_witness:
  "\<exists>d1 d2 b1.
     webhook_build_complete ''t2'' ''t3'' (Some ex_failed) ex_kv = Some (WebhookOk, d1)
     \<and> webhook_build_complete ''t4'' ''t5'' (Some ex_failed) d1 = Some (WebhookOk, d2)
     \<and> \<not> buildLock d2
     \<and> getBuild ''bld_a'' d1 = Some (Stored b1) \<and> b_status b1 = Failed
     \<and> d2 = d1\<lparr>builds := (builds d1)(''bld_a'' \<mapsto>
                   b1\<lparr>b_updatedAt := ''t4'', b_completedAt := Some ''t5''\<rparr>)\<rparr>"
  using webhook_redelivery [of ex_failed "''bld_a''" ex_kv ex_build
      "''t2''" "''t3''" "''t4''" "''t5''"]
  by (simp add: ex_failed_def ex_kv_def ex_build_def getBuild_def)

text \<open>
  The claim as stated fails: the build \<open>bld_a\<close> is failed after the first delivery, and
  the second delivery of the same payload changes its stored record.
\<close>

theorem webhook_redelivery_changes_record:
  "\<exists>d1 d2.
     webhook_build_complete ''t2'' ''t3'' (Some ex_failed) ex_kv = Some (WebhookOk, d1)
     \<and> webhook_build_complete ''t4'' ''t5'' (Some ex_failed) d1 = Some (WebhookOk, d2)
     \<and> map_option b_status (builds d1 ''bld_a'') = Some Failed
     \<and> builds d2 ''bld_a'' \<noteq> builds d1 ''bld_a''"
  by (simp add: ex_defs handler_defs Let_def)

subsection \<open>Submission and the build lock\<close>

lemma ex_upload_accepted:
  "upload_post ex_env ex_form (fresh_server t) = (UploadCreated ''bld_a'' Pending, ex_inflight t)"
  by (simp add: ex_defs handler_defs Let_def)

text \<open>
  C2. While the build lock is held, a submission is refused with 429 and the server is
  left as it was, so no record is created. This holds at the first check of the handler
  and, for a submission that passed it while the lock was free, at
  \<open>acquireBuildLock\<close>.
\<close>

theorem upload_while_locked:
  assumes "buildLock (kv s)"
  shows "upload_post env form s
           = (UploadError 429 ''A build is already in progress. Please wait.'', s)
       \<and> upload_locked env metadata s
           = (UploadError 429 ''Failed to acquire build lock'', s)"
  using assms
  by (simp add: upload_post_def upload_locked_def isBuildLocked_def acquireBuildLock_def)

theorem upload_while_locked_witness:
  "buildLock (kv (ex_inflight Process))
   \<and> upload_post (ex_env\<lparr>e_nanoid := ''b''\<rparr>) ex_form (ex_inflight Process)
       = (UploadError 429 ''A build is already in progress. Please wait.'', ex_inflight Process)
   \<and> upload_locked (ex_env\<lparr>e_nanoid := ''b''\<rparr>) ex_request (ex_inflight Process)
       = (UploadError 429 ''Failed to acquire build lock'', ex_inflight Process)"
proof -
  have held: "buildLock (kv (ex_inflight Process))"
    by (simp add: ex_inflight_def ex_kv_def)
  show ?thesis
    using upload_while_locked [OF held, of "ex_env\<lparr>e_nanoid := ''b''\<rparr>" ex_form ex_request] held
    by simp
qed

subsection \<open>The build timeout\<close>

lemma docker_timeout_kv:
  "builderInstance s = Docker \<Longrightarrow> kv (fire_timeout buildId now s) = kv s"
  by (simp add: fire_timeout_def timeout_callback_def docker_timeout_def split: option.splits)

lemma process_timeout_resolves:
  assumes "builderInstance s = Process" and "timers s buildId = Some build"
    and "b_id build = buildId"
  shows "\<not> buildLock (kv (fire_timeout buildId now s)) \<and>
         builds (kv (fire_timeout buildId now s)) buildId
           = Some (build\<lparr>b_status := Failed, b_error := Some ''Build timed out'',
                          b_updatedAt := now\<rparr>)"
  using assms by (simp add: handler_defs)

lemma process_timeout_frees_lock:
  "(let (r1, s1) = upload_post ex_env ex_form (fresh_server Process);
        s2 = fire_timeout ''bld_a'' ''t2'' s1;
        (r3, s3) = upload_post (ex_env\<lparr>e_nanoid := ''b''\<rparr>) ex_form s2
    in r1 = UploadCreated ''bld_a'' Pending
       \<and> map_option b_status (builds (kv s2) ''bld_a'') = Some Failed
       \<and> map_option b_error (builds (kv s2) ''bld_a'') = Some (Some ''Build timed out'')
       \<and> \<not> buildLock (kv s2)
       \<and> r3 = UploadCreated ''bld_b'' Pending)"
  by (simp add: ex_defs handler_defs Let_def)

text \<open>
  C3 at the Docker builder. A build is submitted and accepted, no webhook arrives, and
  its timer fires: the record is still pending, the lock is still held, and the next
  submission is refused with 429. (With the process builder the same run ends with the
  record failed, the lock free and the next submission accepted:
  \<open>process_timeout_frees_lock\<close>.)
\<close>

theorem docker_timeout_leaves_lock_held:
  "(let (r1, s1) = upload_post ex_env ex_form (fresh_server Docker);
        s2 = fire_timeout ''bld_a'' ''t2'' s1;
        (r3, s3) = upload_post (ex_env\<lparr>e_nanoid := ''b''\<rparr>) ex_form s2
    in r1 = UploadCreated ''bld_a'' Pending
       \<and> map_option b_status (builds (kv s2) ''bld_a'') = Some Pending
       \<and> buildLock (kv s2)
       \<and> r3 = UploadError 429 ''A build is already in progress. Please wait.'')"
  by (simp add: ex_defs handler_defs Let_def)

subsection \<open>A failure after the lock was acquired\<close>

text \<open>
  C10. When the lock was free and the submission is valid, and then the tarball cannot
  be persisted or the executor cannot be spawned, the handler answers 500 with the
  lock released; the pending record it wrote before stays in the store (status
  \<open>pending\<close>, never completed), and no timer is left behind.
\<close>

theorem upload_failure_keeps_record:
  assumes "\<not> buildLock (kv s)"
    and "u_tarball form = Some n" and "n \<le> MAX_TARBALL_SIZE_BYTES"
    and "u_metadata form = Metadata metadata" and "truthy (ur_projectSlug metadata)"
    and "ur_expoConfig metadata = Some c" and "truthy (ec_name c)" and "truthy (ec_slug c)"
    and "e_uploadTarball env = Inl e
         \<or> (\<exists>url. e_uploadTarball env = Inr url) \<and> e_spawn env = Some e"
  shows "(let (r, s') = upload_post env form s
          in r = UploadError 500 (thrown_message e)
             \<and> \<not> buildLock (kv s')
             \<and> (\<exists>b. builds (kv s') (''bld_'' @ e_nanoid env) = Some b
                      \<and> b_status b = Pending \<and> b_completedAt b = None)
             \<and> timers s' = timers s)"
proof -
  have post: "upload_post env form s = upload_locked env metadata s"
    using assms(1-8) by (simp add: upload_post_def isBuildLocked_def)
  from assms(9) show ?thesis
  proof
    assume "e_uploadTarball env = Inl e"
    then show ?thesis
      using assms(1)
      by (simp add: post upload_locked_def acquireBuildLock_def releaseBuildLock_def
          setBuild_def Let_def)
  next
    assume "(\<exists>url. e_uploadTarball env = Inr url) \<and> e_spawn env = Some e"
    then obtain url where "e_uploadTarball env = Inr url" and "e_spawn env = Some e"
      by blast
    then show ?thesis
      using assms(1)
      by (simp add: post upload_locked_def acquireBuildLock_def releaseBuildLock_def
          setBuild_def triggerBuild_def Let_def)
  qed
qed

theorem upload_failure_keeps_record_witness:
  "(let (r, s') = upload_post (ex_env\<lparr>e_uploadTarball := Inl (Error ''ENOSPC'')\<rparr>) ex_form
                    (fresh_server Process)
    in r = UploadError 500 ''ENOSPC''
       \<and> \<not> buildLock (kv s')
       \<and> (\<exists>b. builds (kv s') ''bld_a'' = Some b \<and> b_status b = Pending
                \<and> b_completedAt b = None)
       \<and> timers s' = Map.empty)
   \<and> (let (r, s') = upload_post (ex_env\<lparr>e_spawn := Some (Error ''spawn EAGAIN'')\<rparr>) ex_form
                    (fresh_server Docker)
    in r = UploadError 500 ''spawn EAGAIN''
       \<and> \<not> buildLock (kv s')
       \<and> (\<exists>b. builds (kv s') ''bld_a'' = Some b \<and> b_status b = Pending
                \<and> b_completedAt b = None)
       \<and> timers s' = Map.empty)"
  using upload_failure_keeps_record [of "fresh_server Process" ex_form 1024 ex_request ex_config
      "ex_env\<lparr>e_uploadTarball := Inl (Error ''ENOSPC'')\<rparr>" "Error ''ENOSPC''"]
    upload_failure_keeps_record [of "fresh_server Docker" ex_form 1024 ex_request ex_config
      "ex_env\<lparr>e_spawn := Some (Error ''spawn EAGAIN'')\<rparr>" "Error ''spawn EAGAIN''"]
  by (simp add: ex_defs truthy_def MAX_TARBALL_SIZE_BYTES_def thrown_message_def)

subsection \<open>The manifest invariant\<close>

lemma store_invariant_setBuild:
  "store_invariant d \<Longrightarrow> manifest_invariant build \<Longrightarrow> store_invariant (setBuild build d)"
  by (simp add: store_invariant_def setBuild_def)

lemma store_invariant_release [simp]:
  "store_invariant (releaseBuildLock d) = store_invariant d"
  by (simp add: store_invariant_def releaseBuildLock_def)

lemma store_invariant_lock [simp]:
  "store_invariant (d\<lparr>buildLock := l\<rparr>) = store_invariant d"
  by (simp add: store_invariant_def)

lemma triggerBuild_invariant:
  assumes "server_invariant s" and "b_manifest build = None"
  shows "server_invariant (snd (triggerBuild now spawned build s))"
  using assms
  by (cases spawned)
     (simp_all add: triggerBuild_def server_invariant_def Let_def store_invariant_setBuild
        manifest_invariant_def)

lemma upload_locked_invariant:
  assumes "server_invariant s"
  shows "server_invariant (snd (upload_locked env metadata s))"
proof (cases "buildLock (kv s)")
  case True
  then show ?thesis using assms by (simp add: upload_locked_def acquireBuildLock_def)
next
  case False
  let ?build = "\<lparr>b_id = ''bld_'' @ e_nanoid env,
                     b_projectSlug = the (ur_projectSlug metadata),
                     b_status = Pending,
                     b_platform = (case ur_platform metadata of None \<Rightarrow> All | Some p \<Rightarrow> p),
                     b_runtimeVersion =
                       (case ur_runtimeVersion metadata of
                          None \<Rightarrow> DEFAULT_RUNTIME_VERSION | Some v \<Rightarrow> v),
                     b_createdAt = e_createdAt env,
                     b_updatedAt = e_updatedAt env,
                     b_completedAt = None,
                     b_error = None,
                     b_expoConfig = ur_expoConfig metadata,
                     b_manifest = None,
                     b_assets = None\<rparr>"
  let ?s1 = "s\<lparr>kv := setBuild ?build ((kv s)\<lparr>buildLock := True\<rparr>)\<rparr>"
  have inv1: "server_invariant ?s1"
    using assms by (simp add: server_invariant_def store_invariant_setBuild manifest_invariant_def)
  have inv2: "server_invariant (snd (triggerBuild (e_triggeredAt env) (e_spawn env) ?build ?s1))"
    using inv1 by (rule triggerBuild_invariant) simp
  show ?thesis
  proof (cases "e_uploadTarball env")
    case (Inl e)
    then show ?thesis
      using False inv1
      by (simp add: upload_locked_def acquireBuildLock_def Let_def server_invariant_def)
  next
    case (Inr url)
    obtain r s2 where tb: "triggerBuild (e_triggeredAt env) (e_spawn env) ?build ?s1 = (r, s2)"
      by (cases "triggerBuild (e_triggeredAt env) (e_spawn env) ?build ?s1")
    have "server_invariant s2" using inv2 tb by simp
    then show ?thesis
      using False Inr tb
      by (cases r)
         (simp_all add: upload_locked_def acquireBuildLock_def Let_def server_invariant_def)
  qed
qed

lemma upload_post_invariant:
  assumes "server_invariant s"
  shows "server_invariant (snd (upload_post env form s))"
  using assms upload_locked_invariant [OF assms]
  by (simp add: upload_post_def split: option.splits metadata_field.splits)

lemma fire_timeout_invariant:
  assumes "server_invariant s"
  shows "server_invariant (fire_timeout buildId now s)"
proof (cases "timers s buildId")
  case None
  then show ?thesis using assms by (simp add: fire_timeout_def)
next
  case (Some build)
  then have "b_manifest build = None" using assms by (simp add: server_invariant_def)
  then show ?thesis
    using assms Some
    by (cases "builderInstance s")
       (simp_all add: fire_timeout_def timeout_callback_def docker_timeout_def
          process_timeout_def server_invariant_def store_invariant_setBuild
          manifest_invariant_def)
qed

lemma webhook_update_invariant:
  assumes "if p_status payload = Success then p_manifest payload \<noteq> None
           else b_status build \<noteq> Success"
    and "manifest_invariant build"
  shows "manifest_invariant (webhook_update now1 now2 payload build)"
  using assms
  by (auto simp add: webhook_update_def manifest_invariant_def Let_def split: if_splits)

lemma webhook_post_invariant:
  assumes "server_invariant s" and "webhook_admissible body (kv s)"
    and "webhook_post now1 now2 body s = Some (r, s')"
  shows "server_invariant s'"
proof -
  obtain d where complete: "webhook_build_complete now1 now2 body (kv s) = Some (r, d)"
    and kv': "kv s' = d" and timers': "timers s' = timers s"
    using assms(3) by (auto simp add: webhook_post_def split: option.splits)
  have "store_invariant d"
  proof (cases body)
    case None
    then show ?thesis using assms(1) complete
      by (simp add: webhook_build_complete_def server_invariant_def)
  next
    case (Some payload)
    show ?thesis
    proof (cases "truthy (p_buildId payload)")
      case False
      then show ?thesis using assms(1) complete Some
        by (simp add: webhook_build_complete_def server_invariant_def)
    next
      case True
      then obtain buildId where bid: "p_buildId payload = Some buildId"
        by (auto simp add: truthy_def split: option.splits)
      show ?thesis
      proof (cases "getBuild buildId (kv s)")
        case None
        then show ?thesis using assms(1) complete Some True bid
          by (simp add: webhook_build_complete_def server_invariant_def)
      next
        case found: (Some p)
        show ?thesis
        proof (cases p)
          case (Stored build)
          have "builds (kv s) buildId = Some build"
            using found Stored by (simp add: getBuild_def split: option.splits if_splits)
          then have "manifest_invariant build"
            using assms(1) by (simp add: server_invariant_def store_invariant_def)
          moreover have "if p_status payload = Success then p_manifest payload \<noteq> None
               else b_status build \<noteq> Success"
            using assms(2) Some bid found Stored
            by (simp add: webhook_admissible_def split: if_splits)
          ultimately have "manifest_invariant (webhook_update now1 now2 payload build)"
            by (rule webhook_update_invariant [rotated])
          then show ?thesis
            using assms(1) complete Some True bid found Stored
            by (auto simp add: webhook_build_complete_def server_invariant_def
                store_invariant_setBuild)
        next
          case (Method name)
          then have "d = releaseBuildLock ((kv s)\<lparr>builds := (builds (kv s))(''undefined'' := None)\<rparr>)"
            using complete Some True bid found by (simp add: webhook_build_complete_def)
          then show ?thesis
            using assms(1)
            by (auto simp add: server_invariant_def store_invariant_def releaseBuildLock_def
                split: if_splits)
        next
          case ObjectPrototype
          then show ?thesis
            using complete Some True bid found by (simp add: webhook_build_complete_def)
        qed
      qed
    qed
  qed
  then show ?thesis
    using assms(1) kv' timers' by (simp add: server_invariant_def)
qed

lemma fresh_server_invariant: "server_invariant (fresh_server t)"
  by (simp add: server_invariant_def store_invariant_def fresh_server_def)

lemma reachable_invariant: "reachable s \<Longrightarrow> server_invariant s"
proof (induction rule: reachable.induct)
  case (init t)
  show ?case by (rule fresh_server_invariant)
next
  case (upload s env form)
  then show ?case by (simp add: upload_post_invariant)
next
  case (timeout s buildId now)
  then show ?case by (simp add: fire_timeout_invariant)
next
  case (webhook s body now1 now2 r s')
  then show ?case by (simp add: webhook_post_invariant)
qed

lemma ex_success_delivered:
  "webhook_post ''t2'' ''t3'' (Some ex_success) (ex_inflight t) = Some (WebhookOk, ex_done t)"
  by (simp add: ex_defs handler_defs webhook_method_def Let_def)

text \<open>
  C4, as the code has it. In every state reached from a fresh server by submissions,
  timers firing and webhook deliveries in which a success payload carries a manifest
  and no other payload is delivered for a build that already succeeded, the manifest of
  every stored record is present if and only if its status is \<open>success\<close>. (The
  deliveries are those that \<open>webhook_post\<close> follows: all but the ones that name
  \<open>__proto__\<close>.)
\<close>

theorem manifest_iff_success:
  assumes "reachable s" and "builds (kv s) k = Some b"
  shows "(b_manifest b \<noteq> None) = (b_status b = Success)"
  using reachable_invariant [OF assms(1)] assms(2)
  by (simp add: server_invariant_def store_invariant_def manifest_invariant_def)

theorem manifest_iff_success_witness:
  "reachable (ex_done Process)
   \<and> builds (kv (ex_done Process)) ''bld_a'' = Some ex_build_done
   \<and> b_manifest ex_build_done \<noteq> None \<and> b_status ex_build_done = Success"
proof -
  have "reachable (snd (upload_post ex_env ex_form (fresh_server Process)))"
    by (rule reachable.upload) (rule reachable.init)
  then have inflight: "reachable (ex_inflight Process)"
    by (simp add: ex_upload_accepted)
  have "webhook_admissible (Some ex_success) (kv (ex_inflight Process))"
    by (simp add: webhook_admissible_def ex_success_def)
  with inflight have final: "reachable (ex_done Process)"
    using ex_success_delivered [of Process] by (rule reachable.webhook)
  have stored: "builds (kv (ex_done Process)) ''bld_a'' = Some ex_build_done"
    by (simp add: ex_done_def)
  have "b_status ex_build_done = Success"
    by (simp add: ex_build_done_def)
  with manifest_iff_success [OF final stored] final stored show ?thesis
    by simp
qed

text \<open>
  The claim as stated fails at a success webhook without a manifest: delivered for the
  accepted build \<open>bld_a\<close>, it leaves the record \<open>success\<close> with no manifest.
\<close>

theorem success_without_manifest:
  "\<exists>s1 s2.
     upload_post ex_env ex_form (fresh_server Process) = (UploadCreated ''bld_a'' Pending, s1)
     \<and> webhook_post ''t2'' ''t3'' (Some ex_success_no_manifest) s1 = Some (WebhookOk, s2)
     \<and> map_option b_status (builds (kv s2) ''bld_a'') = Some Success
     \<and> map_option b_manifest (builds (kv s2) ''bld_a'') = Some None"
  by (simp add: ex_defs handler_defs webhook_method_def Let_def)

section \<open>Properties of manifest generation\<close>

subsection \<open>The deterministic UUID\<close>

lemma hi_nibble: "unat (w::byte) div 16 = unat (drop_bit 4 w)"
  by (simp add: drop_bit_eq_div unat_div)

lemma version_bits: "unat (((x::byte) AND 0x0f) OR 0x40) div 16 = 4"
  by (simp add: hi_nibble)

lemma variant_bits: "unat (((x::byte) AND 0x3f) OR 0x80) div 16 \<in> {8, 9, 10, 11}"
proof -
  let ?y = "drop_bit 4 x AND (3::byte)"
  have le: "?y \<le> 3" by (rule word_and_le1)
  have "?y AND 8 = 0" by (simp add: and.assoc)
  then have "?y OR 8 = ?y + 8"
    by (metis word_plus_and_or add_0)
  moreover have "unat (?y + 8) = unat ?y + 8"
    using le by (simp add: unat_add_lem [THEN iffD1] word_le_nat_alt)
  moreover have "unat ?y \<le> 3" using le by (simp add: word_le_nat_alt)
  ultimately have "unat (?y OR 8) \<in> {8, 9, 10, 11}" by auto
  then show ?thesis by (simp add: hi_nibble)
qed

lemma length_16_cases:
  "length (xs::'a list) = 16 \<Longrightarrow>
     \<exists>b0 b1 b2 b3 b4 b5 b6 b7 b8 b9 b10 b11 b12 b13 b14 b15.
       xs = [b0,b1,b2,b3,b4,b5,b6,b7,b8,b9,b10,b11,b12,b13,b14,b15]"
  by (auto simp add: length_Suc_conv eval_nat_numeral)

lemma list_update_Cons_numeral:
  "(x # xs)[numeral k := v] = x # xs[pred_numeral k := v]"
  by (simp add: numeral_eq_Suc)

lemma isHexDigit_hexDigit: "n < 16 \<Longrightarrow> isHexDigit (hexDigit n)"
  unfolding isHexDigit_def hexDigit_def by (rule nth_mem) simp

lemma isHexDigit_hi [simp]: "isHexDigit (hexDigit (unat (b::byte) div 16))"
proof -
  have "unat b < 256" using unsigned_less [of b, where ?'a = nat] by simp
  then show ?thesis by (intro isHexDigit_hexDigit) simp
qed

lemma isHexDigit_lo [simp]: "isHexDigit (hexDigit (unat (b::byte) mod 16))"
  by (intro isHexDigit_hexDigit) simp

lemma isHexDigit_4 [simp]: "isHexDigit CHR ''4''"
  by (simp add: isHexDigit_def)

lemma version_nibble: "hexDigit (unat (((x::byte) AND 0x0f) OR 0x40) div 16) = CHR ''4''"
  by (simp only: version_bits) (simp add: hexDigit_def)

lemma variant_nibble: "hexDigit (unat (((x::byte) AND 0x3f) OR 0x80) div 16) \<in> set ''89ab''"
  using variant_bits [of x] by (auto simp add: hexDigit_def)

lemma uuid_of_bytes:
  assumes "take 16 (sha256 input) = [b0,b1,b2,b3,b4,b5,b6,b7,b8,b9,b10,b11,b12,b13,b14,b15]"
  shows "generateUUID sha256 input =
     toHex2 b0 @ toHex2 b1 @ toHex2 b2 @ toHex2 b3 @ ''-'' @ toHex2 b4 @ toHex2 b5 @ ''-''
     @ toHex2 ((b6 AND 0x0f) OR 0x40) @ toHex2 b7 @ ''-''
     @ toHex2 ((b8 AND 0x3f) OR 0x80) @ toHex2 b9 @ ''-''
     @ toHex2 b10 @ toHex2 b11 @ toHex2 b12 @ toHex2 b13 @ toHex2 b14 @ toHex2 b15"
  unfolding generateUUID_def Let_def assms
  by (simp add: list_update_Cons_numeral slice_def toHex2_def)

lemma generateUUID_canonical:
  assumes "length (sha256 input) = 32"
  shows "canonical_uuid_v4 (generateUUID sha256 input)"
proof -
  have "length (take 16 (sha256 input)) = 16" using assms by simp
  then have "\<exists>b0 b1 b2 b3 b4 b5 b6 b7 b8 b9 b10 b11 b12 b13 b14 b15.
      take 16 (sha256 input) = [b0,b1,b2,b3,b4,b5,b6,b7,b8,b9,b10,b11,b12,b13,b14,b15]"
    by (rule length_16_cases)
  then show ?thesis
  proof (elim exE)
    fix b0 b1 b2 b3 b4 b5 b6 b7 b8 b9 b10 b11 b12 b13 b14 b15
    assume bs: "take 16 (sha256 input)
                  = [b0,b1,b2,b3,b4,b5,b6,b7,b8,b9,b10,b11,b12,b13,b14,b15]"
    show ?thesis
      unfolding uuid_of_bytes [of sha256 input, OF bs]
      using version_nibble [of b6] variant_nibble [of b8]
      by (simp add: canonical_uuid_v4_def slice_def toHex2_def)
  qed
qed

lemma ex_uuid: "generateUUID ex_sha256 ''bld_a'' = ''b578a9ae-f059-40a3-9440-30e246cfb50e''"
  by (simp add: generateUUID_def ex_sha256_def list_update_Cons_numeral slice_def toHex2_def
      hexDigit_def)

text \<open>
  C6. \<open>generateUUID\<close> is a function of its input alone (for the SHA-256 digest it is
  given): equal inputs give equal outputs. Whenever the digest has its 32 bytes, the
  output has the canonical UUID shape, with version digit 4 and a variant digit among
  8, 9, a, b.
\<close>

theorem generateUUID_pure_canonical:
  assumes "length (sha256 input) = 32"
  shows "canonical_uuid_v4 (generateUUID sha256 input)
         \<and> (\<forall>input'. input' = input \<longrightarrow> generateUUID sha256 input' = generateUUID sha256 input)"
  using generateUUID_canonical [of sha256 input, OF assms] by simp

theorem generateUUID_pure_canonical_witness:
  "length (ex_sha256 ''bld_a'') = 32
   \<and> canonical_uuid_v4 (generateUUID ex_sha256 ''bld_a'')
   \<and> generateUUID ex_sha256 ''bld_a'' = ''b578a9ae-f059-40a3-9440-30e246cfb50e''"
  using generateUUID_pure_canonical [of ex_sha256 "''bld_a''"] ex_uuid
  by (simp add: ex_sha256_def)

subsection \<open>The scope key\<close>

lemma deriveScopeKey_nonempty: "deriveScopeKey c \<noteq> []"
  by (simp add: deriveScopeKey_def Let_def)


lemma scopeKey_builder:
  "generateManifest_builder extname now buildId runtimeVersion expoConfig assets bundles platform
     = Inr m \<Longrightarrow> scopeKeyOf m = Some (deriveScopeKey expoConfig)"
  by (auto simp add: generateManifest_builder_def scopeKeyOf_def Let_def
      split: if_splits option.splits)

text \<open>\<open>updateManifestUrls\<close> returns a manifest exactly for the manifests it can read.\<close>

lemma updateAssetUrls_readable:
  "(\<exists>updated. updateAssetUrls assetsBaseUrl assets = Inr updated)
     \<longleftrightarrow> list_all (\<lambda>a. a_url a \<noteq> None) assets"
  by (induction assets) (auto split: option.splits sum.splits)

lemma updateManifestUrls_Inr:
  assumes "m_id manifest = Some i" and "m_launchAsset manifest = Some la"
    and "a_url la = Some url" and "m_assets manifest = Some assets"
    and "updateAssetUrls (baseUrl @ ''/v1/assets/'' @ buildId) assets = Inr updated"
  shows "\<exists>m. updateManifestUrls sha256 manifest baseUrl buildId = Inr m"
  using assms by (simp add: updateManifestUrls_def Let_def)

lemma updateManifestUrls_readable:
  "(\<exists>m. updateManifestUrls sha256 manifest baseUrl buildId = Inr m)
     \<longleftrightarrow> manifest_readable manifest"
proof
  assume "\<exists>m. updateManifestUrls sha256 manifest baseUrl buildId = Inr m"
  then obtain m where m: "updateManifestUrls sha256 manifest baseUrl buildId = Inr m" ..
  then obtain i la url assets updated where
    "m_id manifest = Some i" "m_launchAsset manifest = Some la" "a_url la = Some url"
    "m_assets manifest = Some assets"
    "updateAssetUrls (baseUrl @ ''/v1/assets/'' @ buildId) assets = Inr updated"
    by (auto simp add: updateManifestUrls_def Let_def split: option.splits sum.splits)
  then show "manifest_readable manifest"
    using updateAssetUrls_readable [of "baseUrl @ ''/v1/assets/'' @ buildId" assets]
    by (auto simp add: manifest_readable_def)
next
  assume r: "manifest_readable manifest"
  then obtain i la url assets where f:
    "m_id manifest = Some i" "m_launchAsset manifest = Some la" "a_url la = Some url"
    "m_assets manifest = Some assets" "list_all (\<lambda>a. a_url a \<noteq> None) assets"
    by (auto simp add: manifest_readable_def split: option.splits)
  then obtain updated where
    "updateAssetUrls (baseUrl @ ''/v1/assets/'' @ buildId) assets = Inr updated"
    using updateAssetUrls_readable [of "baseUrl @ ''/v1/assets/'' @ buildId" assets] by blast
  with f show "\<exists>m. updateManifestUrls sha256 manifest baseUrl buildId = Inr m"
    by (intro updateManifestUrls_Inr)
qed

text \<open>
  A stored manifest keeps its scope key. When it has none (a manifest from before scope
  keys were added), the API falls back on the slug of the stored configuration alone.
\<close>

lemma scopeKey_updated:
  assumes "updateManifestUrls sha256 manifest baseUrl buildId = Inr m"
  shows "scopeKeyOf m
           = Some (if truthy (scopeKeyOf manifest) then the (scopeKeyOf manifest)
                   else if truthy (expoClientSlug manifest)
                     then ''@anonymous/'' @ the (expoClientSlug manifest)
                   else ''@anonymous/app'')"
proof -
  obtain i la url assets updated where
    "m_id manifest = Some i" "m_launchAsset manifest = Some la" "a_url la = Some url"
    "m_assets manifest = Some assets"
    "updateAssetUrls (baseUrl @ ''/v1/assets/'' @ buildId) assets = Inr updated"
    using assms
    by (auto simp add: updateManifestUrls_def Let_def split: option.splits sum.splits)
  then show ?thesis
    using assms
    by (auto simp add: updateManifestUrls_def scopeKeyOf_def expoClientSlug_def Let_def
        split: option.splits)
qed


text \<open>
  The builder derives the scope key in the same way, and the API serves the builder's
  key for a record that stores the builder's manifest.
\<close>

lemma builder_manifest_readable:
  assumes "generateManifest_builder extname now buildId runtimeVersion expoConfig assets bundles
             platform = Inr m"
  shows "manifest_readable m"
proof -
  obtain launchAsset otherAssets where
    "m_id m = Some buildId" and "m_launchAsset m = Some launchAsset"
    and "a_url launchAsset \<noteq> None" and "m_assets m = Some otherAssets"
    and "\<forall>a \<in> set otherAssets. a_url a \<noteq> None"
    using assms
    by (fastforce simp add: generateManifest_builder_def Let_def
        split: if_splits option.splits)
  then show ?thesis
    by (simp add: manifest_readable_def list_all_iff)
qed

lemma scopeKey_of_builder_manifest:
  assumes "generateManifest_builder extname now buildId runtimeVersion expoConfig assets bundles
             platform = Inr stored"
  shows "\<exists>m. generateManifest sha256 (build\<lparr>b_manifest := Some stored\<rparr>) options = Inr m
             \<and> scopeKeyOf m = Some (deriveScopeKey expoConfig)"
proof -
  have key: "scopeKeyOf stored = Some (deriveScopeKey expoConfig)"
    using assms by (rule scopeKey_builder)
  have "manifest_readable stored"
    using assms by (rule builder_manifest_readable)
  then obtain m where
    m: "updateManifestUrls sha256 stored (o_baseUrl options) (b_id build) = Inr m"
    using updateManifestUrls_readable [of sha256 stored "o_baseUrl options" "b_id build"]
    by blast
  have "scopeKeyOf m = Some (deriveScopeKey expoConfig)"
    using scopeKey_updated [OF m] by (simp add: key truthy_def deriveScopeKey_nonempty)
  with m show ?thesis
    by (simp add: generateManifest_def)
qed






subsection \<open>The launch asset chosen by the builder\<close>

lemma collectBundles_nonempty:
  "ios (collectBundles fm) \<noteq> Some [] \<and> android (collectBundles fm) \<noteq> Some []"
  by (auto simp add: collectBundles_def Let_def truthy_def split: option.splits)

lemma launch_from_path:
  assumes "(if platform = ''ios'' then ios bundles
            else (case android bundles of Some p \<Rightarrow> Some p | None \<Rightarrow> ios bundles)) = Some path"
    and "path \<noteq> []"
    and "find (\<lambda>a. am_path a = path) assets = Some bundleAsset"
  shows "launchHash (generateManifest_builder extname now buildId runtimeVersion expoConfig
                       assets bundles platform) = Some (am_hash bundleAsset)"
  using assms
  by (simp add: generateManifest_builder_def launchHash_def truthy_def Let_def)

lemma launch_not_found:
  assumes "(if platform = ''ios'' then ios bundles
            else (case android bundles of Some p \<Rightarrow> Some p | None \<Rightarrow> ios bundles)) = Some path"
    and "path \<noteq> []"
    and "find (\<lambda>a. am_path a = path) assets = None"
  shows "generateManifest_builder extname now buildId runtimeVersion expoConfig
           assets bundles platform
         = Inl (Error (''Bundle not found at path '' @ path @ '' for platform '' @ platform))"
  using assms
  by (simp add: generateManifest_builder_def truthy_def Let_def)

lemma launch_no_path:
  assumes "(if platform = ''ios'' then ios bundles
            else (case android bundles of Some p \<Rightarrow> Some p | None \<Rightarrow> ios bundles)) = None"
  shows "generateManifest_builder extname now buildId runtimeVersion expoConfig
           assets bundles platform
         = Inl (Error (''No bundle path found for platform '' @ platform))"
  using assms
  by (simp add: generateManifest_builder_def truthy_def Let_def)

text \<open>
  C7. For the bundle paths that \<open>collectAssets\<close> takes from a build output: for platform
  \<open>android\<close> the launch asset is the android bundle when one is recorded, and the iOS
  bundle otherwise; for platform \<open>ios\<close> it is the iOS bundle, whatever is recorded for
  android. The launch asset is the asset stored at the chosen path, observed through
  its content hash. When no bundle is recorded for the platform, or none is stored at
  the chosen path, generation throws an error that says so.
\<close>

theorem launch_asset_selection:
  assumes "bundles = collectBundles fileMetadata"
  shows
    "(\<forall>p a. platform = ''android'' \<and> android bundles = Some p
            \<and> find (\<lambda>a. am_path a = p) assets = Some a
        \<longrightarrow> launchHash (generateManifest_builder extname now buildId runtimeVersion expoConfig
                           assets bundles platform) = Some (am_hash a))
     \<and> (\<forall>p a. platform = ''android'' \<and> android bundles = None \<and> ios bundles = Some p
            \<and> find (\<lambda>a. am_path a = p) assets = Some a
        \<longrightarrow> launchHash (generateManifest_builder extname now buildId runtimeVersion expoConfig
                           assets bundles platform) = Some (am_hash a))
     \<and> (\<forall>p a. platform = ''ios'' \<and> ios bundles = Some p
            \<and> find (\<lambda>a. am_path a = p) assets = Some a
        \<longrightarrow> launchHash (generateManifest_builder extname now buildId runtimeVersion expoConfig
                           assets bundles platform) = Some (am_hash a))
     \<and> (platform = ''ios'' \<and> ios bundles = None
        \<longrightarrow> generateManifest_builder extname now buildId runtimeVersion expoConfig
              assets bundles platform
            = Inl (Error ''No bundle path found for platform ios''))
     \<and> (platform = ''android'' \<and> android bundles = None \<and> ios bundles = None
        \<longrightarrow> generateManifest_builder extname now buildId runtimeVersion expoConfig
              assets bundles platform
            = Inl (Error ''No bundle path found for platform android''))
     \<and> (\<forall>p. (platform = ''android'' \<and> android bundles = Some p
             \<or> platform = ''android'' \<and> android bundles = None \<and> ios bundles = Some p
             \<or> platform = ''ios'' \<and> ios bundles = Some p)
            \<and> find (\<lambda>a. am_path a = p) assets = None
        \<longrightarrow> generateManifest_builder extname now buildId runtimeVersion expoConfig
              assets bundles platform
            = Inl (Error (''Bundle not found at path '' @ p @ '' for platform '' @ platform)))"
proof -
  have ne: "ios bundles \<noteq> Some []" "android bundles \<noteq> Some []"
    using collectBundles_nonempty [of fileMetadata] assms by simp_all
  show ?thesis
  proof (intro conjI allI impI)
    fix p a
    assume "platform = ''android'' \<and> android bundles = Some p
              \<and> find (\<lambda>a. am_path a = p) assets = Some a"
    then show "launchHash (generateManifest_builder extname now buildId runtimeVersion
                 expoConfig assets bundles platform) = Some (am_hash a)"
      using ne by (intro launch_from_path [where path = p]) auto
  next
    fix p a
    assume "platform = ''android'' \<and> android bundles = None \<and> ios bundles = Some p
              \<and> find (\<lambda>a. am_path a = p) assets = Some a"
    then show "launchHash (generateManifest_builder extname now buildId runtimeVersion
                 expoConfig assets bundles platform) = Some (am_hash a)"
      using ne by (intro launch_from_path [where path = p]) auto
  next
    fix p a
    assume "platform = ''ios'' \<and> ios bundles = Some p
              \<and> find (\<lambda>a. am_path a = p) assets = Some a"
    then show "launchHash (generateManifest_builder extname now buildId runtimeVersion
                 expoConfig assets bundles platform) = Some (am_hash a)"
      using ne by (intro launch_from_path [where path = p]) auto
  next
    assume "platform = ''ios'' \<and> ios bundles = None"
    then show "generateManifest_builder extname now buildId runtimeVersion expoConfig
                assets bundles platform
              = Inl (Error ''No bundle path found for platform ios'')"
      using launch_no_path [of platform bundles] by simp
  next
    assume "platform = ''android'' \<and> android bundles = None \<and> ios bundles = None"
    then show "generateManifest_builder extname now buildId runtimeVersion expoConfig
                assets bundles platform
              = Inl (Error ''No bundle path found for platform android'')"
      using launch_no_path [of platform bundles] by simp
  next
    fix p
    assume "(platform = ''android'' \<and> android bundles = Some p
             \<or> platform = ''android'' \<and> android bundles = None \<and> ios bundles = Some p
             \<or> platform = ''ios'' \<and> ios bundles = Some p)
            \<and> find (\<lambda>a. am_path a = p) assets = None"
    then show "generateManifest_builder extname now buildId runtimeVersion expoConfig
                assets bundles platform
              = Inl (Error (''Bundle not found at path '' @ p @ '' for platform '' @ platform))"
      using ne by (intro launch_not_found) auto
  qed
qed

theorem launch_asset_selection_witness:
  "ex_bundles = collectBundles ex_fileMetadata
   \<and> android ex_bundles = None
   \<and> launchHash (generateManifest_builder (\<lambda>p. ''.js'') ''t2'' ''bld_a'' ''exposdk:52.0.0''
         (Some ex_config) ex_assets ex_bundles ''android'') = Some ''h-ios''
   \<and> generateManifest_builder (\<lambda>p. ''.js'') ''t2'' ''bld_a'' ''exposdk:52.0.0''
         (Some ex_config) ex_assets
         (collectBundles \<lparr>fm_ios = None, fm_android = fm_ios ex_fileMetadata\<rparr>) ''ios''
       = Inl (Error ''No bundle path found for platform ios'')"
proof -
  have collected: "ex_bundles = collectBundles ex_fileMetadata"
    by (simp add: ex_bundles_def ex_fileMetadata_def collectBundles_def truthy_def Let_def)
  have no_android: "android ex_bundles = None"
    by (simp add: ex_bundles_def)
  have found: "find (\<lambda>a. am_path a = ''_expo/static/js/ios/index.js'') ex_assets
                 = Some (ex_assets ! 1)"
    by (simp add: ex_assets_def)
  have hash: "am_hash (ex_assets ! 1) = ''h-ios''"
    by (simp add: ex_assets_def)
  have no_ios:
    "ios (collectBundles \<lparr>fm_ios = None, fm_android = fm_ios ex_fileMetadata\<rparr>) = None"
    by (simp add: ex_fileMetadata_def collectBundles_def truthy_def Let_def)
  note A = launch_asset_selection [OF collected, of "''android''" ex_assets "\<lambda>p. ''.js''"
      "''t2''" "''bld_a''" "''exposdk:52.0.0''" "Some ex_config"]
  note B = launch_asset_selection [OF refl,
      of "''ios''" "\<lparr>fm_ios = None, fm_android = fm_ios ex_fileMetadata\<rparr>" ex_assets
         "\<lambda>p. ''.js''" "''t2''" "''bld_a''" "''exposdk:52.0.0''" "Some ex_config"]
  have fallback:
    "launchHash (generateManifest_builder (\<lambda>p. ''.js'') ''t2'' ''bld_a'' ''exposdk:52.0.0''
       (Some ex_config) ex_assets ex_bundles ''android'') = Some (am_hash (ex_assets ! 1))"
    by (rule A [THEN conjunct2, THEN conjunct1, rule_format,
                of "''_expo/static/js/ios/index.js''" "ex_assets ! 1"])
       (simp add: ex_bundles_def found)
  have missing:
    "generateManifest_builder (\<lambda>p. ''.js'') ''t2'' ''bld_a'' ''exposdk:52.0.0''
       (Some ex_config) ex_assets
       (collectBundles \<lparr>fm_ios = None, fm_android = fm_ios ex_fileMetadata\<rparr>) ''ios''
     = Inl (Error ''No bundle path found for platform ios'')"
    by (rule B [THEN conjunct2, THEN conjunct2, THEN conjunct2, THEN conjunct1, rule_format])
       (simp add: no_ios)
  show ?thesis
    using collected no_android fallback missing hash by simp
qed

subsection \<open>The multipart manifest response\<close>

lemma split_crlf_nonempty: "split_crlf s \<noteq> []"
  by (induction s rule: split_crlf.induct) (auto split: list.splits)













lemma scopeKeyOf_id [simp]: "scopeKeyOf (m\<lparr>m_id := i\<rparr>) = scopeKeyOf m"
  by (simp add: scopeKeyOf_def)





text \<open>
  Outside these conditions the answer is an error: 400 for another protocol version,
  whatever the build, and 500 for a stored manifest that cannot be read.
\<close>

lemma manifest_unsupported_version:
  assumes "r_protocolVersion req = Some v" and "v \<noteq> []" and "v \<noteq> EXPO_PROTOCOL_VERSION"
  shows "manifest_get sha256 stringify dateNow req s
           = ManifestError 400 (''Unsupported protocol version: '' @ v)"
  using assms by (simp add: manifest_get_def truthy_def)

lemma manifest_unreadable:
  assumes "getBuild (r_buildId req) (kv s) = Some (Stored build)"
    and "b_status build = Success"
    and "b_manifest build = Some stored" and "\<not> manifest_readable stored"
    and "truthy (r_protocolVersion req) \<longrightarrow> r_protocolVersion req = Some EXPO_PROTOCOL_VERSION"
  shows "manifest_get sha256 stringify dateNow req s
           = ManifestError 500 ''Internal server error''"
proof -
  let ?targetPlatform = "if r_platform req = Some ''ios'' \<or> r_platform req = Some ''android''
                         then the (r_platform req) else ''ios''"
  let ?forwardedHost = "case r_forwardedHost req of Some h \<Rightarrow> Some h | None \<Rightarrow> r_host req"
  let ?baseUrl = "(if truthy (r_forwardedProto req) then the (r_forwardedProto req) @ '':''
                   else r_urlProtocol req) @ ''//''
                  @ (case ?forwardedHost of Some h \<Rightarrow> h | None \<Rightarrow> r_urlHost req)"
  let ?opts = "\<lparr>o_baseUrl = ?baseUrl, o_platform = ?targetPlatform\<rparr>"
  have "\<not> (\<exists>m. updateManifestUrls sha256 stored ?baseUrl (b_id build) = Inr m)"
    using assms(4) by (simp add: updateManifestUrls_readable)
  then obtain e where "updateManifestUrls sha256 stored ?baseUrl (b_id build) = Inl e"
    by (cases "updateManifestUrls sha256 stored ?baseUrl (b_id build)") auto
  then have gen: "generateManifest sha256 build ?opts = Inl e"
    using assms(3) by (simp add: generateManifest_def)
  have pv: "\<not> (truthy (r_protocolVersion req)
               \<and> the (r_protocolVersion req) \<noteq> EXPO_PROTOCOL_VERSION)"
    using assms(5) by auto
  show ?thesis
    unfolding manifest_get_def Let_def
    using pv assms(1,2) gen by simp
qed


end
